theory Spec2Isabelle
  imports Main "HOL-Library.Signed_Division"
begin

section \<open>The Bril interpreter (brili): values, numbers and errors\<close>

text \<open>
  The interpreter modelled is the one with function calls, typed errors and the heap
  extension (the repository also holds an earlier interpreter, without a heap, which
  throws strings only and whose function lookup returns \<^verbatim>\<open>null\<close>). It imports three
  modules whose code is not among the sources: the declarations of the program
  (\<^verbatim>\<open>./bril\<close>), the heap (\<^verbatim>\<open>./heap\<close>) and \<^verbatim>\<open>./util\<close>. The types of \<^verbatim>\<open>./bril\<close>
  are read off the interpreter: \<^verbatim>\<open>brilTypeToDynamicType\<close> is a table over all of
  \<^verbatim>\<open>bril.Type\<close> with the keys \<^verbatim>\<open>int\<close>, \<^verbatim>\<open>bool\<close>, \<^verbatim>\<open>ptr\<close>, and \<^verbatim>\<open>argCounts\<close> is a table over
  all of \<^verbatim>\<open>bril.OpCode\<close>.
\<close>

type_synonym ident = string

datatype ty = TInt | TBool | TPtr

text \<open>
  The \<^verbatim>\<open>type\<close> field of an instruction as it is in the JSON: a name, or an object
  \<^verbatim>\<open>{"ptr": t}\<close> (a \<^verbatim>\<open>bril.PointerType\<close>).
\<close>

datatype jtype = Prim ty | PtrTo jtype

subsection \<open>Host numbers\<close>

text \<open>
  \<^verbatim>\<open>Number(amt)\<close> and \<^verbatim>\<open>parseInt\<close> produce host numbers (IEEE doubles). Every number
  that occurs in the interpreter is integral or not finite, so a number is an integer,
  an infinity or NaN. The conversion of an integer rounds to 53 significant bits, to
  nearest with ties to even, and gives an infinity from \<open>2 ^ 1024\<close> on.
\<close>

datatype number = Num int | PosInf | NegInf | NaN

fun bit_length :: "nat \<Rightarrow> nat" where
  "bit_length n = (if n = 0 then 0 else Suc (bit_length (n div 2)))"

declare bit_length.simps [simp del]

definition round53 :: "nat \<Rightarrow> nat" where
  "round53 m =
     (if m < 2 ^ 53 then m
      else let e = bit_length m - 53;
               q = m div 2 ^ e;
               r = m mod 2 ^ e;
               h = 2 ^ (e - 1)
           in (if h < r \<or> (r = h \<and> odd q) then q + 1 else q) * 2 ^ e)"

definition toNumber :: "int \<Rightarrow> number" where
  "toNumber k =
     (let r = round53 (nat \<bar>k\<bar>)
      in if 2 ^ 1024 \<le> r then (if k < 0 then NegInf else PosInf)
         else Num (if k < 0 then - int r else int r))"

text \<open>\<^verbatim>\<open>amt <= 0\<close> on a number: a comparison with NaN is false.\<close>

fun num_le0 :: "number \<Rightarrow> bool" where
  "num_le0 (Num i) = (i \<le> 0)"
| "num_le0 NegInf = True"
| "num_le0 PosInf = False"
| "num_le0 NaN = False"

text \<open>The sum of two numbers: the exact sum, rounded.\<close>

fun num_add :: "number \<Rightarrow> number \<Rightarrow> number" where
  "num_add (Num a) (Num b) = toNumber (a + b)"
| "num_add NaN _ = NaN"
| "num_add _ NaN = NaN"
| "num_add PosInf NegInf = NaN"
| "num_add NegInf PosInf = NaN"
| "num_add PosInf _ = PosInf"
| "num_add _ PosInf = PosInf"
| "num_add NegInf _ = NegInf"
| "num_add _ NegInf = NegInf"

subsection \<open>Values\<close>

text \<open>
  Modelled from the spec: the class \<^verbatim>\<open>Key\<close> of the heap module, which is not among the
  sources. A key is an allocation identifier and an offset within that allocation;
  \<^verbatim>\<open>Key.add(n)\<close> gives a key of the same allocation with the offset shifted by \<open>n\<close>, and
  validates nothing. The interpreter hands it a host number, so the offset is one.
\<close>

record key =
  base :: nat
  offset :: number

text \<open>Modelled from the spec: \<^verbatim>\<open>Key.add\<close>, of the heap module.\<close>

definition key_add :: "key \<Rightarrow> number \<Rightarrow> key" where
  "key_add k n = k\<lparr>offset := num_add (offset k) n\<rparr>"

record pointer =
  loc :: key
  ptr_type :: ty

datatype val = VInt int | VBool bool | VPtr pointer

type_synonym env = "ident \<rightharpoonup> val"

text \<open>The table \<^verbatim>\<open>brilTypeToDynamicType\<close> and the host's \<^verbatim>\<open>typeof\<close>.\<close>

fun brilTypeToDynamicType :: "ty \<Rightarrow> string" where
  "brilTypeToDynamicType TInt = ''bigint''"
| "brilTypeToDynamicType TBool = ''boolean''"
| "brilTypeToDynamicType TPtr = ''object''"

fun typeof :: "val \<Rightarrow> string" where
  "typeof (VInt _) = ''bigint''"
| "typeof (VBool _) = ''boolean''"
| "typeof (VPtr _) = ''object''"

subsection \<open>Errors\<close>

text \<open>
  Every message of the interpreter, with the values it interpolates. The text of each
  template is given at the place that throws it.
\<close>

datatype message =
    Undefined_variable ident
  | No_function_found ident
  | Multiple_functions_found ident
  | Unspecified_pointer_type jtype
  | Must_allocate_positive number
  | Takes_arguments string nat nat
  | Argument_must_be string nat
  | Argument_must_be_Pointer string nat
  | Undefined_function ident
  | Function_expected_arguments nat nat
  | Function_argument_type_mismatch
  | Unexpected_value_returned
  | Non_void_returns_nothing "ty option"
  | Call_must_include_type
  | Call_must_include_destination
  | Returned_type_not_destination_type
  | Returned_type_not_declaration
  | Ret_takes_arguments nat
  | Points_to_uninitialized ident
  | Label_not_found ident
  | Boolean_argument_to_main string
  | Mismatched_main_arity nat nat
  | Memory_not_freed

text \<open>
  Modelled from the spec: the faults of the heap module, which is not among the sources
  (section 4.1 of the specification names them, but for the failure of an allocation).
\<close>

datatype heap_fault = InvalidAlloc | InvalidFree | InvalidAccess | UninitializedRead

text \<open>
  What can be thrown: a \<^verbatim>\<open>BriliError\<close> object (\<^verbatim>\<open>throw new BriliError(...)\<close>), a bare
  string (\<^verbatim>\<open>throw `...`\<close>), the host's \<^verbatim>\<open>RangeError\<close> (a division of big integers by
  zero, the conversion of NaN or of an infinity to a big integer), or a fault of the heap.
\<close>

datatype error =
    BriliError message
  | Thrown message
  | RangeError
  | HeapError heap_fault

section \<open>The heap\<close>

text \<open>
  Modelled from the spec: the class \<^verbatim>\<open>Heap\<close> of the heap module, which is not among the
  sources (section 4.1 of the specification). A block is a fixed-length sequence of
  slots, each a value or uninitialized; the heap holds the live blocks under their
  identifiers and issues each identifier once. An allocation fails if the count is not
  positive; a count that is no integer gives no block either.
\<close>

record heap =
  storage :: "(nat \<times> val option list) list"
  count :: nat

text \<open>Modelled from the spec: \<^verbatim>\<open>new Heap()\<close>, a heap without blocks.\<close>

definition empty_heap :: heap where
  "empty_heap = \<lparr>storage = [], count = 0\<rparr>"

text \<open>
  Modelled from the spec: \<^verbatim>\<open>Heap.alloc\<close>, of the heap module. It fails if the count is not
  positive; otherwise it creates a new block of that many uninitialized slots and
  returns the key of its offset 0.
\<close>

definition heap_alloc :: "number \<Rightarrow> heap \<Rightarrow> error + (key \<times> heap)" where
  "heap_alloc amt h =
     (case amt of
        Num n \<Rightarrow>
          if n \<le> 0 then Inl (HeapError InvalidAlloc)
          else Inr (\<lparr>base = count h, offset = Num 0\<rparr>,
                    h\<lparr>storage := storage h @ [(count h, replicate (nat n) None)],
                      count := Suc (count h)\<rparr>)
      | _ \<Rightarrow> Inl (HeapError InvalidAlloc))"

text \<open>
  Modelled from the spec: \<^verbatim>\<open>Heap.free\<close>, of the heap module. It fails if the key's
  allocation is not live or the key does not point at the base offset; otherwise the
  block is released.
\<close>

definition heap_free :: "key \<Rightarrow> heap \<Rightarrow> error + heap" where
  "heap_free k h =
     (if map_of (storage h) (base k) \<noteq> None \<and> offset k = Num 0
      then Inr (h\<lparr>storage := filter (\<lambda>b. fst b \<noteq> base k) (storage h)\<rparr>)
      else Inl (HeapError InvalidFree))"

text \<open>
  Modelled from the spec: the check of \<^verbatim>\<open>Heap.read\<close> and \<^verbatim>\<open>Heap.write\<close> that the offset is
  within the block.
\<close>

definition slot_index :: "key \<Rightarrow> val option list \<Rightarrow> nat option" where
  "slot_index k slots =
     (case offset k of
        Num i \<Rightarrow> if 0 \<le> i \<and> i < int (length slots) then Some (nat i) else None
      | _ \<Rightarrow> None)"

text \<open>
  Modelled from the spec: \<^verbatim>\<open>Heap.read\<close>, of the heap module. It fails if the allocation is
  not live or the offset is out of range, and if the slot was never written. (The
  interpreter compares the result with \<^verbatim>\<open>undefined\<close>, so the result is an optional
  value here.)
\<close>

definition heap_read :: "key \<Rightarrow> heap \<Rightarrow> error + val option" where
  "heap_read k h =
     (case map_of (storage h) (base k) of
        None \<Rightarrow> Inl (HeapError InvalidAccess)
      | Some slots \<Rightarrow>
          (case slot_index k slots of
             None \<Rightarrow> Inl (HeapError InvalidAccess)
           | Some i \<Rightarrow>
               (case slots ! i of
                  None \<Rightarrow> Inl (HeapError UninitializedRead)
                | Some v \<Rightarrow> Inr (Some v))))"

text \<open>
  Modelled from the spec: \<^verbatim>\<open>Heap.write\<close>, of the heap module. The checks are those of
  \<^verbatim>\<open>Heap.read\<close> for liveness and bounds; the slot is overwritten, whatever the value.
\<close>

definition heap_write :: "key \<Rightarrow> val \<Rightarrow> heap \<Rightarrow> error + heap" where
  "heap_write k v h =
     (case map_of (storage h) (base k) of
        None \<Rightarrow> Inl (HeapError InvalidAccess)
      | Some slots \<Rightarrow>
          (case slot_index k slots of
             None \<Rightarrow> Inl (HeapError InvalidAccess)
           | Some i \<Rightarrow>
               Inr (h\<lparr>storage :=
                     map (\<lambda>b. if fst b = base k then (fst b, (snd b)[i := Some v]) else b)
                       (storage h)\<rparr>)))"

text \<open>
  Modelled from the spec: \<^verbatim>\<open>Heap.isEmpty\<close>, of the heap module: true iff no block is live.
\<close>

definition heap_isEmpty :: "heap \<Rightarrow> bool" where
  "heap_isEmpty h = (storage h = [])"

section \<open>Programs\<close>

text \<open>
  A function has a name, typed parameters, an optional return type and a list of lines;
  a line is a label or an instruction (\<^verbatim>\<open>'op' in line\<close>). The value of a \<^verbatim>\<open>const\<close> is
  a JSON number (taken integral here) or a boolean. Instructions come in the shapes of
  the declarations of \<^verbatim>\<open>./bril\<close>: a constant (destination and value), an operation with
  a destination, an operation without one, a call (the name of the callee, and a
  destination and a type that may both be absent), and an allocation (whose type is
  handed to \<^verbatim>\<open>alloc\<close>).
\<close>

datatype literal = LNumber int | LBoolean bool

datatype value_op =
    OpAdd | OpMul | OpSub | OpDiv | OpId | OpLt | OpLe | OpGt | OpGe | OpEq
  | OpNot | OpAnd | OpOr | OpLoad | OpPtradd

datatype effect_op = OpPrint | OpBr | OpJmp | OpRet | OpNop | OpFree | OpStore

datatype instr =
    Constant ident literal
  | ValueOperation value_op ident "ident list"
  | EffectOperation effect_op "ident list"
  | CallOperation ident "ident list" "ident option" "ty option"
  | AllocOperation ident jtype "ident list"

datatype line = Label ident | Instr instr

record argument =
  arg_name :: ident
  arg_type :: ty

record func =
  f_name :: ident
  f_args :: "argument list"
  f_type :: "ty option"
  f_instrs :: "line list"

record program =
  p_functions :: "func list"

fun value_op_name :: "value_op \<Rightarrow> string" where
  "value_op_name OpAdd = ''add''"
| "value_op_name OpMul = ''mul''"
| "value_op_name OpSub = ''sub''"
| "value_op_name OpDiv = ''div''"
| "value_op_name OpId = ''id''"
| "value_op_name OpLt = ''lt''"
| "value_op_name OpLe = ''le''"
| "value_op_name OpGt = ''gt''"
| "value_op_name OpGe = ''ge''"
| "value_op_name OpEq = ''eq''"
| "value_op_name OpNot = ''not''"
| "value_op_name OpAnd = ''and''"
| "value_op_name OpOr = ''or''"
| "value_op_name OpLoad = ''load''"
| "value_op_name OpPtradd = ''ptradd''"

fun effect_op_name :: "effect_op \<Rightarrow> string" where
  "effect_op_name OpPrint = ''print''"
| "effect_op_name OpBr = ''br''"
| "effect_op_name OpJmp = ''jmp''"
| "effect_op_name OpRet = ''ret''"
| "effect_op_name OpNop = ''nop''"
| "effect_op_name OpFree = ''free''"
| "effect_op_name OpStore = ''store''"

text \<open>\<^verbatim>\<open>instr.op\<close> and \<^verbatim>\<open>instr.args\<close>.\<close>

fun op_of :: "instr \<Rightarrow> string" where
  "op_of (Constant _ _) = ''const''"
| "op_of (ValueOperation opc _ _) = value_op_name opc"
| "op_of (EffectOperation opc _) = effect_op_name opc"
| "op_of (CallOperation _ _ _ _) = ''call''"
| "op_of (AllocOperation _ _ _) = ''alloc''"

fun args_of :: "instr \<Rightarrow> ident list" where
  "args_of (Constant _ _) = []"
| "args_of (ValueOperation _ _ as) = as"
| "args_of (EffectOperation _ as) = as"
| "args_of (CallOperation _ as _ _) = as"
| "args_of (AllocOperation _ _ as) = as"

text \<open>
  The table \<^verbatim>\<open>argCounts\<close>: the number of arguments of each opcode, \<open>None\<close> for
  \<^verbatim>\<open>null\<close> (any number). A constant is not looked up.
\<close>

fun argCounts :: "instr \<Rightarrow> nat option" where
  "argCounts (ValueOperation OpAdd _ _) = Some 2"
| "argCounts (ValueOperation OpMul _ _) = Some 2"
| "argCounts (ValueOperation OpSub _ _) = Some 2"
| "argCounts (ValueOperation OpDiv _ _) = Some 2"
| "argCounts (ValueOperation OpId _ _) = Some 1"
| "argCounts (ValueOperation OpLt _ _) = Some 2"
| "argCounts (ValueOperation OpLe _ _) = Some 2"
| "argCounts (ValueOperation OpGt _ _) = Some 2"
| "argCounts (ValueOperation OpGe _ _) = Some 2"
| "argCounts (ValueOperation OpEq _ _) = Some 2"
| "argCounts (ValueOperation OpNot _ _) = Some 1"
| "argCounts (ValueOperation OpAnd _ _) = Some 2"
| "argCounts (ValueOperation OpOr _ _) = Some 2"
| "argCounts (EffectOperation OpPrint _) = None"
| "argCounts (EffectOperation OpBr _) = Some 3"
| "argCounts (EffectOperation OpJmp _) = Some 1"
| "argCounts (EffectOperation OpRet _) = None"
| "argCounts (EffectOperation OpNop _) = Some 0"
| "argCounts (CallOperation _ _ _ _) = None"
| "argCounts (AllocOperation _ _ _) = Some 1"
| "argCounts (EffectOperation OpFree _) = Some 1"
| "argCounts (EffectOperation OpStore _) = Some 2"
| "argCounts (ValueOperation OpLoad _ _) = Some 1"
| "argCounts (ValueOperation OpPtradd _ _) = Some 2"
| "argCounts (Constant _ _) = None"

section \<open>Looking up variables, functions and arguments\<close>

text \<open>\<^verbatim>\<open>get\<close>: throws \<^verbatim>\<open>BriliError(`undefined variable ${ident}`)\<close>.\<close>

definition get :: "env \<Rightarrow> ident \<Rightarrow> error + val" where
  "get env ident =
     (case env ident of
        None \<Rightarrow> Inl (BriliError (Undefined_variable ident))
      | Some v \<Rightarrow> Inr v)"

text \<open>
  \<^verbatim>\<open>findFunc\<close>: the functions of that name are filtered out of the table; none throws
  \<^verbatim>\<open>BriliError(`no function of name ${func} found`)\<close>, more than one throws
  \<^verbatim>\<open>BriliError(`multiple functions of name ${func} found`)\<close>, and the only one is
  returned. Both callers compare the result with \<^verbatim>\<open>null\<close>, so the result is an optional
  function here.
\<close>

definition findFunc :: "ident \<Rightarrow> func list \<Rightarrow> error + func option" where
  "findFunc fn funcs =
     (let matches = filter (\<lambda>f. f_name f = fn) funcs
      in if length matches = 0 then Inl (BriliError (No_function_found fn))
         else if 1 < length matches then Inl (BriliError (Multiple_functions_found fn))
         else Inr (Some (matches ! 0)))"

text \<open>
  \<^verbatim>\<open>alloc\<close>: throws the string \<^verbatim>\<open>`unspecified pointer type ${ptrType}`\<close> when the type is
  no object, the string \<^verbatim>\<open>`must allocate a positive amount of memory: ${amt} <= 0`\<close>
  when \<^verbatim>\<open>amt <= 0\<close>; otherwise it allocates on the heap, and the type of the data is
  that under \<^verbatim>\<open>ptr\<close> when it is \<^verbatim>\<open>int\<close> or \<^verbatim>\<open>bool\<close>, and \<^verbatim>\<open>ptr\<close> when it is anything else.
\<close>

definition alloc :: "jtype \<Rightarrow> number \<Rightarrow> heap \<Rightarrow> error + (pointer \<times> heap)" where
  "alloc ptrType amt h =
     (case ptrType of
        Prim t \<Rightarrow> Inl (Thrown (Unspecified_pointer_type ptrType))
      | PtrTo d \<Rightarrow>
          if num_le0 amt then Inl (Thrown (Must_allocate_positive amt))
          else (case heap_alloc amt h of
                  Inl e \<Rightarrow> Inl e
                | Inr (l, h') \<Rightarrow>
                    Inr (\<lparr>loc = l,
                          ptr_type = (if d \<noteq> Prim TInt \<and> d \<noteq> Prim TBool then TPtr
                                      else (case d of Prim t \<Rightarrow> t | PtrTo _ \<Rightarrow> TPtr))\<rparr>,
                         h')))"

text \<open>
  \<^verbatim>\<open>checkArgs\<close>: throws
  \<^verbatim>\<open>BriliError(`${instr.op} takes ${count} argument(s); got ${instr.args.length}`)\<close>.
\<close>

definition checkArgs :: "instr \<Rightarrow> nat \<Rightarrow> error + unit" where
  "checkArgs instr cnt =
     (if length (args_of instr) \<noteq> cnt
      then Inl (BriliError (Takes_arguments (op_of instr) cnt (length (args_of instr))))
      else Inr ())"

text \<open>
  \<^verbatim>\<open>instr.args[index]\<close>: beyond the end of the list it is \<^verbatim>\<open>undefined\<close>, which no
  environment binds (its keys are identifiers), so that \<^verbatim>\<open>get\<close> throws.
\<close>

definition get_arg :: "env \<Rightarrow> instr \<Rightarrow> nat \<Rightarrow> error + val" where
  "get_arg env instr index =
     (if index < length (args_of instr) then get env (args_of instr ! index)
      else Inl (BriliError (Undefined_variable ''undefined'')))"

text \<open>
  \<^verbatim>\<open>getArgument\<close>: throws
  \<^verbatim>\<open>BriliError(`${instr.op} argument ${index} must be a {brilTyp}`)\<close> when the host type
  of the value is not that of the table.
\<close>

definition getArgument :: "instr \<Rightarrow> env \<Rightarrow> nat \<Rightarrow> ty \<Rightarrow> error + val" where
  "getArgument instr env index typ =
     (case get_arg env instr index of
        Inl e \<Rightarrow> Inl e
      | Inr v \<Rightarrow>
          if brilTypeToDynamicType typ \<noteq> typeof v
          then Inl (BriliError (Argument_must_be (op_of instr) index))
          else Inr v)"

text \<open>
  \<^verbatim>\<open>getInt\<close> and \<^verbatim>\<open>getBool\<close> cast the result of \<^verbatim>\<open>getArgument\<close>; the value has the host
  type asked for, so the last case of each does not occur.
\<close>

definition getInt :: "instr \<Rightarrow> env \<Rightarrow> nat \<Rightarrow> error + int" where
  "getInt instr env index =
     (case getArgument instr env index TInt of
        Inl e \<Rightarrow> Inl e
      | Inr (VInt n) \<Rightarrow> Inr n
      | Inr _ \<Rightarrow> Inl (BriliError (Argument_must_be (op_of instr) index)))"

definition getBool :: "instr \<Rightarrow> env \<Rightarrow> nat \<Rightarrow> error + bool" where
  "getBool instr env index =
     (case getArgument instr env index TBool of
        Inl e \<Rightarrow> Inl e
      | Inr (VBool b) \<Rightarrow> Inr b
      | Inr _ \<Rightarrow> Inl (BriliError (Argument_must_be (op_of instr) index)))"

text \<open>
  \<^verbatim>\<open>getPtr\<close>: throws the string \<^verbatim>\<open>`${instr.op} argument ${index} must be a Pointer`\<close>
  when the value is no object.
\<close>

definition getPtr :: "instr \<Rightarrow> env \<Rightarrow> nat \<Rightarrow> error + pointer" where
  "getPtr instr env index =
     (case get_arg env instr index of
        Inl e \<Rightarrow> Inl e
      | Inr (VPtr p) \<Rightarrow> Inr p
      | Inr _ \<Rightarrow> Inl (Thrown (Argument_must_be_Pointer (op_of instr) index)))"

section \<open>Instructions\<close>

text \<open>
  The state outside the environments: the heap, and the lines written by
  \<^verbatim>\<open>console.log\<close>. A step gives an error or a result, together with the state it leaves
  (a throw undoes nothing); \<open>None\<close> is a run that the fuel does not cover.
\<close>

record world =
  w_heap :: heap
  w_out :: "string list"

type_synonym 'a result = "((error + 'a) \<times> world) option"

text \<open>
  \<^verbatim>\<open>Action\<close>: transfer control to a label, go to the next instruction, or end the
  function with a return value (\<open>None\<close> for \<^verbatim>\<open>null\<close>).
\<close>

datatype action = ALabel ident | ANext | AEnd "val option"

text \<open>\<^verbatim>\<open>toString\<close> of a value, for \<^verbatim>\<open>print\<close>.\<close>

fun string_of_nat :: "nat \<Rightarrow> string" where
  "string_of_nat n =
     (if n < 10 then [''0123456789'' ! n]
      else string_of_nat (n div 10) @ [''0123456789'' ! (n mod 10)])"

declare string_of_nat.simps [simp del]

definition string_of_int :: "int \<Rightarrow> string" where
  "string_of_int k = (if k < 0 then CHR ''-'' # string_of_nat (nat (- k)) else string_of_nat (nat k))"

fun toString :: "val \<Rightarrow> string" where
  "toString (VInt n) = string_of_int n"
| "toString (VBool b) = (if b then ''true'' else ''false'')"
| "toString (VPtr _) = ''[object Object]''"

fun get_all :: "env \<Rightarrow> ident list \<Rightarrow> error + val list" where
  "get_all env [] = Inr []"
| "get_all env (i # is) =
     (case get env i of
        Inl e \<Rightarrow> Inl e
      | Inr v \<Rightarrow> (case get_all env is of Inl e \<Rightarrow> Inl e | Inr vs \<Rightarrow> Inr (v # vs)))"

fun join_space :: "string list \<Rightarrow> string" where
  "join_space [] = []"
| "join_space [s] = s"
| "join_space (s # t # ss) = s @ '' '' @ join_space (t # ss)"

text \<open>
  The loop of \<^verbatim>\<open>evalCall\<close> over the parameters of the callee: each argument is looked
  up in the calling environment, its host type is compared with that of the parameter
  (\<^verbatim>\<open>BriliError(`function argument type mismatch`)\<close>), and it is set in the new
  environment under the name of the parameter. The two lists have the same length by
  the check before the loop.
\<close>

fun bind_call_args :: "argument list \<Rightarrow> ident list \<Rightarrow> env \<Rightarrow> env \<Rightarrow> error + env" where
  "bind_call_args (p # ps) (a # as) env newEnv =
     (case get env a of
        Inl e \<Rightarrow> Inl e
      | Inr v \<Rightarrow>
          if brilTypeToDynamicType (arg_type p) \<noteq> typeof v
          then Inl (BriliError Function_argument_type_mismatch)
          else bind_call_args ps as env (newEnv(arg_name p \<mapsto> v)))"
| "bind_call_args _ _ env newEnv = Inr newEnv"

text \<open>
  The search for a label: the index of the first line that is this label, the length
  of the list when there is none.
\<close>

fun findLabel :: "line list \<Rightarrow> ident \<Rightarrow> nat" where
  "findLabel [] l = 0"
| "findLabel (x # xs) l =
     (case x of
        Label l' \<Rightarrow> if l' = l then 0 else Suc (findLabel xs l)
      | Instr _ \<Rightarrow> Suc (findLabel xs l))"

text \<open>
  \<^verbatim>\<open>evalCall\<close>, \<^verbatim>\<open>evalInstr\<close> and \<^verbatim>\<open>evalFuncInEnv\<close> call each other; a program may loop
  or recurse for ever, so they take fuel: every turn of the loop of \<^verbatim>\<open>evalFuncInEnv\<close>
  uses one unit. \<open>evalFuncInEnv_from\<close> is that loop from the index \<open>i\<close> on.
\<close>

function
  evalCall :: "nat \<Rightarrow> ident \<Rightarrow> ident list \<Rightarrow> ident option \<Rightarrow> ty option \<Rightarrow> env \<Rightarrow> func list
      \<Rightarrow> world \<Rightarrow> (action \<times> env) result"
and
  evalInstr :: "nat \<Rightarrow> instr \<Rightarrow> env \<Rightarrow> func list \<Rightarrow> world \<Rightarrow> (action \<times> env) result"
and
  evalFuncInEnv :: "nat \<Rightarrow> func \<Rightarrow> func list \<Rightarrow> env \<Rightarrow> world \<Rightarrow> (val option) result"
and
  evalFuncInEnv_from :: "nat \<Rightarrow> func \<Rightarrow> func list \<Rightarrow> nat \<Rightarrow> env \<Rightarrow> world \<Rightarrow> (val option) result"
where
  "evalCall n name args dest type env funcs w =
     (case findFunc name funcs of
        Inl e \<Rightarrow> Some (Inl e, w)
      | Inr None \<Rightarrow> Some (Inl (BriliError (Undefined_function name)), w)
      | Inr (Some func) \<Rightarrow>
          if length (f_args func) \<noteq> length args
          then Some (Inl (BriliError
                 (Function_expected_arguments (length (f_args func)) (length args))), w)
          else
            (case bind_call_args (f_args func) args env Map.empty of
               Inl e \<Rightarrow> Some (Inl e, w)
             | Inr newEnv \<Rightarrow>
                 (case evalFuncInEnv n func funcs newEnv w of
                    None \<Rightarrow> None
                  | Some (Inl e, w') \<Rightarrow> Some (Inl e, w')
                  | Some (Inr retVal, w') \<Rightarrow>
                      if dest = None \<and> type = None then
                        (if retVal \<noteq> None
                         then Some (Inl (BriliError Unexpected_value_returned), w')
                         else if f_type func \<noteq> None
                         then Some (Inl (BriliError (Non_void_returns_nothing (f_type func))), w')
                         else Some (Inr (ANext, env), w'))
                      else
                        (case type of
                           None \<Rightarrow> Some (Inl (BriliError Call_must_include_type), w')
                         | Some t \<Rightarrow>
                         (case dest of
                           None \<Rightarrow> Some (Inl (BriliError Call_must_include_destination), w')
                         | Some d \<Rightarrow>
                         (case retVal of
                           None \<Rightarrow>
                             Some (Inl (BriliError (Non_void_returns_nothing (f_type func))), w')
                         | Some v \<Rightarrow>
                             if brilTypeToDynamicType t \<noteq> typeof v
                             then Some (Inl (BriliError Returned_type_not_destination_type), w')
                             else if f_type func \<noteq> Some t
                             then Some (Inl (BriliError Returned_type_not_declaration), w')
                             else Some (Inr (ANext, env(d \<mapsto> v)), w')))))))"
| "evalInstr n instr env funcs w =
     (case (case instr of
              Constant _ _ \<Rightarrow> Inr ()
            | _ \<Rightarrow> (case argCounts instr of None \<Rightarrow> Inr () | Some c \<Rightarrow> checkArgs instr c)) of
        Inl e \<Rightarrow> Some (Inl e, w)
      | Inr _ \<Rightarrow>
     (case instr of
        Constant dest v \<Rightarrow>
          Some (Inr (ANext, env(dest \<mapsto> (case v of LNumber k \<Rightarrow> VInt k | LBoolean b \<Rightarrow> VBool b))), w)
      | ValueOperation OpId dest as \<Rightarrow>
          (case get_arg env instr 0 of
             Inl e \<Rightarrow> Some (Inl e, w)
           | Inr v \<Rightarrow> Some (Inr (ANext, env(dest \<mapsto> v)), w))
      | ValueOperation OpAdd dest as \<Rightarrow>
          (case getInt instr env 0 of Inl e \<Rightarrow> Some (Inl e, w) | Inr a \<Rightarrow>
          (case getInt instr env 1 of Inl e \<Rightarrow> Some (Inl e, w) | Inr b \<Rightarrow>
             Some (Inr (ANext, env(dest \<mapsto> VInt (a + b))), w)))
      | ValueOperation OpMul dest as \<Rightarrow>
          (case getInt instr env 0 of Inl e \<Rightarrow> Some (Inl e, w) | Inr a \<Rightarrow>
          (case getInt instr env 1 of Inl e \<Rightarrow> Some (Inl e, w) | Inr b \<Rightarrow>
             Some (Inr (ANext, env(dest \<mapsto> VInt (a * b))), w)))
      | ValueOperation OpSub dest as \<Rightarrow>
          (case getInt instr env 0 of Inl e \<Rightarrow> Some (Inl e, w) | Inr a \<Rightarrow>
          (case getInt instr env 1 of Inl e \<Rightarrow> Some (Inl e, w) | Inr b \<Rightarrow>
             Some (Inr (ANext, env(dest \<mapsto> VInt (a - b))), w)))
      | ValueOperation OpDiv dest as \<Rightarrow>
          (case getInt instr env 0 of Inl e \<Rightarrow> Some (Inl e, w) | Inr a \<Rightarrow>
          (case getInt instr env 1 of Inl e \<Rightarrow> Some (Inl e, w) | Inr b \<Rightarrow>
             if b = 0 then Some (Inl RangeError, w)
             else Some (Inr (ANext, env(dest \<mapsto> VInt (a sdiv b))), w)))
      | ValueOperation OpLe dest as \<Rightarrow>
          (case getInt instr env 0 of Inl e \<Rightarrow> Some (Inl e, w) | Inr a \<Rightarrow>
          (case getInt instr env 1 of Inl e \<Rightarrow> Some (Inl e, w) | Inr b \<Rightarrow>
             Some (Inr (ANext, env(dest \<mapsto> VBool (a \<le> b))), w)))
      | ValueOperation OpLt dest as \<Rightarrow>
          (case getInt instr env 0 of Inl e \<Rightarrow> Some (Inl e, w) | Inr a \<Rightarrow>
          (case getInt instr env 1 of Inl e \<Rightarrow> Some (Inl e, w) | Inr b \<Rightarrow>
             Some (Inr (ANext, env(dest \<mapsto> VBool (a < b))), w)))
      | ValueOperation OpGt dest as \<Rightarrow>
          (case getInt instr env 0 of Inl e \<Rightarrow> Some (Inl e, w) | Inr a \<Rightarrow>
          (case getInt instr env 1 of Inl e \<Rightarrow> Some (Inl e, w) | Inr b \<Rightarrow>
             Some (Inr (ANext, env(dest \<mapsto> VBool (b < a))), w)))
      | ValueOperation OpGe dest as \<Rightarrow>
          (case getInt instr env 0 of Inl e \<Rightarrow> Some (Inl e, w) | Inr a \<Rightarrow>
          (case getInt instr env 1 of Inl e \<Rightarrow> Some (Inl e, w) | Inr b \<Rightarrow>
             Some (Inr (ANext, env(dest \<mapsto> VBool (b \<le> a))), w)))
      | ValueOperation OpEq dest as \<Rightarrow>
          (case getInt instr env 0 of Inl e \<Rightarrow> Some (Inl e, w) | Inr a \<Rightarrow>
          (case getInt instr env 1 of Inl e \<Rightarrow> Some (Inl e, w) | Inr b \<Rightarrow>
             Some (Inr (ANext, env(dest \<mapsto> VBool (a = b))), w)))
      | ValueOperation OpNot dest as \<Rightarrow>
          (case getBool instr env 0 of Inl e \<Rightarrow> Some (Inl e, w) | Inr a \<Rightarrow>
             Some (Inr (ANext, env(dest \<mapsto> VBool (\<not> a))), w))
      | ValueOperation OpAnd dest as \<Rightarrow>
          (case getBool instr env 0 of Inl e \<Rightarrow> Some (Inl e, w) | Inr a \<Rightarrow>
             if a then
               (case getBool instr env 1 of Inl e \<Rightarrow> Some (Inl e, w) | Inr b \<Rightarrow>
                  Some (Inr (ANext, env(dest \<mapsto> VBool b)), w))
             else Some (Inr (ANext, env(dest \<mapsto> VBool False)), w))
      | ValueOperation OpOr dest as \<Rightarrow>
          (case getBool instr env 0 of Inl e \<Rightarrow> Some (Inl e, w) | Inr a \<Rightarrow>
             if a then Some (Inr (ANext, env(dest \<mapsto> VBool True)), w)
             else
               (case getBool instr env 1 of Inl e \<Rightarrow> Some (Inl e, w) | Inr b \<Rightarrow>
                  Some (Inr (ANext, env(dest \<mapsto> VBool b)), w)))
      | EffectOperation OpPrint as \<Rightarrow>
          (case get_all env as of
             Inl e \<Rightarrow> Some (Inl e, w)
           | Inr vs \<Rightarrow>
               Some (Inr (ANext, env), w\<lparr>w_out := w_out w @ [join_space (map toString vs)]\<rparr>))
      | EffectOperation OpJmp as \<Rightarrow> Some (Inr (ALabel (as ! 0), env), w)
      | EffectOperation OpBr as \<Rightarrow>
          (case getBool instr env 0 of Inl e \<Rightarrow> Some (Inl e, w) | Inr cond \<Rightarrow>
             if cond then Some (Inr (ALabel (as ! 1), env), w)
             else Some (Inr (ALabel (as ! 2), env), w))
      | EffectOperation OpRet as \<Rightarrow>
          if length as = 0 then Some (Inr (AEnd None, env), w)
          else if length as = 1 then
            (case get env (as ! 0) of
               Inl e \<Rightarrow> Some (Inl e, w)
             | Inr v \<Rightarrow> Some (Inr (AEnd (Some v), env), w))
          else Some (Inl (BriliError (Ret_takes_arguments (length as))), w)
      | EffectOperation OpNop as \<Rightarrow> Some (Inr (ANext, env), w)
      | CallOperation name as dest type \<Rightarrow> evalCall n name as dest type env funcs w
      | AllocOperation dest type as \<Rightarrow>
          (case getInt instr env 0 of Inl e \<Rightarrow> Some (Inl e, w) | Inr amt \<Rightarrow>
          (case alloc type (toNumber amt) (w_heap w) of
             Inl e \<Rightarrow> Some (Inl e, w)
           | Inr (ptr, h') \<Rightarrow> Some (Inr (ANext, env(dest \<mapsto> VPtr ptr)), w\<lparr>w_heap := h'\<rparr>)))
      | EffectOperation OpFree as \<Rightarrow>
          (case getPtr instr env 0 of Inl e \<Rightarrow> Some (Inl e, w) | Inr v \<Rightarrow>
          (case heap_free (loc v) (w_heap w) of
             Inl e \<Rightarrow> Some (Inl e, w)
           | Inr h' \<Rightarrow> Some (Inr (ANext, env), w\<lparr>w_heap := h'\<rparr>)))
      | EffectOperation OpStore as \<Rightarrow>
          (case getPtr instr env 0 of Inl e \<Rightarrow> Some (Inl e, w) | Inr target \<Rightarrow>
          (case ptr_type target of
             TInt \<Rightarrow>
               (case getInt instr env 1 of Inl e \<Rightarrow> Some (Inl e, w) | Inr k \<Rightarrow>
               (case heap_write (loc target) (VInt k) (w_heap w) of
                  Inl e \<Rightarrow> Some (Inl e, w)
                | Inr h' \<Rightarrow> Some (Inr (ANext, env), w\<lparr>w_heap := h'\<rparr>)))
           | TBool \<Rightarrow>
               (case getBool instr env 1 of Inl e \<Rightarrow> Some (Inl e, w) | Inr b \<Rightarrow>
               (case heap_write (loc target) (VBool b) (w_heap w) of
                  Inl e \<Rightarrow> Some (Inl e, w)
                | Inr h' \<Rightarrow> Some (Inr (ANext, env), w\<lparr>w_heap := h'\<rparr>)))
           | TPtr \<Rightarrow>
               (case getPtr instr env 1 of Inl e \<Rightarrow> Some (Inl e, w) | Inr p \<Rightarrow>
               (case heap_write (loc target) (VPtr p) (w_heap w) of
                  Inl e \<Rightarrow> Some (Inl e, w)
                | Inr h' \<Rightarrow> Some (Inr (ANext, env), w\<lparr>w_heap := h'\<rparr>)))))
      | ValueOperation OpLoad dest as \<Rightarrow>
          (case getPtr instr env 0 of Inl e \<Rightarrow> Some (Inl e, w) | Inr ptr \<Rightarrow>
          (case heap_read (loc ptr) (w_heap w) of
             Inl e \<Rightarrow> Some (Inl e, w)
           | Inr None \<Rightarrow> Some (Inl (Thrown (Points_to_uninitialized (as ! 0))), w)
           | Inr (Some v) \<Rightarrow> Some (Inr (ANext, env(dest \<mapsto> v)), w)))
      | ValueOperation OpPtradd dest as \<Rightarrow>
          (case getPtr instr env 0 of Inl e \<Rightarrow> Some (Inl e, w) | Inr ptr \<Rightarrow>
          (case getInt instr env 1 of Inl e \<Rightarrow> Some (Inl e, w) | Inr v \<Rightarrow>
             Some (Inr (ANext,
                        env(dest \<mapsto> VPtr \<lparr>loc = key_add (loc ptr) (toNumber v),
                                          ptr_type = ptr_type ptr\<rparr>)), w)))))"
| "evalFuncInEnv n func funcs env w = evalFuncInEnv_from n func funcs 0 env w"
| "evalFuncInEnv_from 0 func funcs i env w = None"
| "evalFuncInEnv_from (Suc n) func funcs i env w =
     (if i < length (f_instrs func) then
        (case f_instrs func ! i of
           Label _ \<Rightarrow> evalFuncInEnv_from n func funcs (i + 1) env w
         | Instr line \<Rightarrow>
             (case evalInstr n line env funcs w of
                None \<Rightarrow> None
              | Some (Inl e, w') \<Rightarrow> Some (Inl e, w')
              | Some (Inr (act, env'), w') \<Rightarrow>
                  (case act of
                     ALabel l \<Rightarrow>
                       (let j = findLabel (f_instrs func) l
                        in if j = length (f_instrs func)
                           then Some (Inl (BriliError (Label_not_found l)), w')
                           else evalFuncInEnv_from n func funcs (j + 1) env' w')
                   | ANext \<Rightarrow> evalFuncInEnv_from n func funcs (i + 1) env' w'
                   | AEnd v \<Rightarrow> Some (Inr v, w'))))
      else Some (Inr None, w))"
  by pat_completeness auto
termination
  by (relation "measure (\<lambda>x. case x of
        Inl (Inl (n, _)) \<Rightarrow> 4 * n + 2
      | Inl (Inr (n, _)) \<Rightarrow> 4 * n + 3
      | Inr (Inl (n, _)) \<Rightarrow> 4 * n + 1
      | Inr (Inr (n, _)) \<Rightarrow> 4 * n)") auto

declare evalCall.simps [simp del]
declare evalInstr.simps [simp del]
declare evalFuncInEnv_from.simps [simp del]

section \<open>The driver\<close>

text \<open>
  \<^verbatim>\<open>parseBool\<close>: throws
  \<^verbatim>\<open>BriliError(`boolean argument to main must be 'true'/'false'; got ${s}`)\<close>.
\<close>

definition parseBool :: "string \<Rightarrow> error + bool" where
  "parseBool s =
     (if s = ''true'' then Inr True
      else if s = ''false'' then Inr False
      else Inl (BriliError (Boolean_argument_to_main s)))"

text \<open>
  The host's \<^verbatim>\<open>parseInt\<close> with one argument, on a string of characters below 256: the
  white space at the start is skipped; a sign is taken; after \<^verbatim>\<open>0x\<close> or \<^verbatim>\<open>0X\<close> the
  radix is 16, and 10 otherwise; the digits of that radix up to the first other
  character are the numeral, whose value is rounded to a number; without a digit the
  result is NaN. (For a decimal numeral of more than 20 significant digits the language
  lets an engine replace the later digits by zeros; the value is exact here.)
\<close>

definition isWhiteSpace :: "char \<Rightarrow> bool" where
  "isWhiteSpace c = (of_char c \<in> set [9, 10, 11, 12, 13, 32, 160 :: nat])"

text \<open>The value of a digit; 36 for a character that is no digit of any radix.\<close>

definition digit_of :: "char \<Rightarrow> nat" where
  "digit_of c =
     (let n = of_char c
      in if 48 \<le> n \<and> n \<le> 57 then n - 48
         else if 97 \<le> n \<and> n \<le> 122 then n - 87
         else if 65 \<le> n \<and> n \<le> 90 then n - 55
         else 36)"

definition parseInt :: "string \<Rightarrow> number" where
  "parseInt inputString =
     (let s0 = dropWhile isWhiteSpace inputString;
          neg = (s0 \<noteq> [] \<and> hd s0 = CHR ''-'');
          s1 = (if s0 \<noteq> [] \<and> (hd s0 = CHR ''+'' \<or> hd s0 = CHR ''-'') then tl s0 else s0);
          hex = (take 2 s1 = ''0x'' \<or> take 2 s1 = ''0X'');
          R = (if hex then 16 else 10);
          s2 = (if hex then drop 2 s1 else s1);
          Z = takeWhile (\<lambda>c. digit_of c < R) s2
      in if Z = [] then NaN
         else let mathInt = foldl (\<lambda>a c. a * R + digit_of c) 0 Z
              in toNumber (if neg then - int mathInt else int mathInt))"

text \<open>\<^verbatim>\<open>BigInt(x)\<close> of a number: a \<^verbatim>\<open>RangeError\<close> unless the number is an integer.\<close>

fun numberToBigInt :: "number \<Rightarrow> error + int" where
  "numberToBigInt (Num i) = Inr i"
| "numberToBigInt _ = Inl RangeError"

text \<open>
  \<^verbatim>\<open>parseMainArguments\<close>: throws
  \<^verbatim>\<open>BriliError(`mismatched main argument arity: expected ${expected.length}; got ${args.length}`)\<close>;
  then the loop over the arguments, which binds nothing for a parameter that is neither
  \<^verbatim>\<open>int\<close> nor \<^verbatim>\<open>bool\<close>.
\<close>

fun bind_main_args :: "argument list \<Rightarrow> string list \<Rightarrow> env \<Rightarrow> error + env" where
  "bind_main_args (p # ps) (a # as) newEnv =
     (case arg_type p of
        TInt \<Rightarrow>
          (case numberToBigInt (parseInt a) of
             Inl e \<Rightarrow> Inl e
           | Inr k \<Rightarrow> bind_main_args ps as (newEnv(arg_name p \<mapsto> VInt k)))
      | TBool \<Rightarrow>
          (case parseBool a of
             Inl e \<Rightarrow> Inl e
           | Inr b \<Rightarrow> bind_main_args ps as (newEnv(arg_name p \<mapsto> VBool b)))
      | TPtr \<Rightarrow> bind_main_args ps as newEnv)"
| "bind_main_args _ _ newEnv = Inr newEnv"

definition parseMainArguments :: "argument list \<Rightarrow> string list \<Rightarrow> error + env" where
  "parseMainArguments expected args =
     (if length args \<noteq> length expected
      then Inl (BriliError (Mismatched_main_arity (length expected) (length args)))
      else bind_main_args expected args Map.empty)"

text \<open>
  \<^verbatim>\<open>evalProg\<close>, given the arguments of the command line after the first two. It throws
  the string \<^verbatim>\<open>`Some memory locations have not been freed by end of execution.`\<close> when
  the heap is not empty at the end.
\<close>

definition initial_world :: world where
  "initial_world = \<lparr>w_heap = empty_heap, w_out = []\<rparr>"

definition check_heap :: "world \<Rightarrow> unit result" where
  "check_heap w =
     (if \<not> heap_isEmpty (w_heap w) then Some (Inl (Thrown Memory_not_freed), w)
      else Some (Inr (), w))"

definition evalProg :: "nat \<Rightarrow> program \<Rightarrow> string list \<Rightarrow> unit result" where
  "evalProg n prog argv =
     (case findFunc ''main'' (p_functions prog) of
        Inl e \<Rightarrow> Some (Inl e, initial_world)
      | Inr None \<Rightarrow>
          check_heap (initial_world
            \<lparr>w_out := w_out initial_world @ [''warning: no main function defined, doing nothing'']\<rparr>)
      | Inr (Some main) \<Rightarrow>
          (case parseMainArguments (f_args main) argv of
             Inl e \<Rightarrow> Some (Inl e, initial_world)
           | Inr newEnv \<Rightarrow>
               (case evalFuncInEnv n main (p_functions prog) newEnv initial_world of
                  None \<Rightarrow> None
                | Some (Inl e, w) \<Rightarrow> Some (Inl e, w)
                | Some (Inr _, w) \<Rightarrow> check_heap w)))"

text \<open>
  \<^verbatim>\<open>main\<close> catches what \<^verbatim>\<open>evalProg\<close> throws: a \<^verbatim>\<open>BriliError\<close> is reported
  (\<^verbatim>\<open>Brili interpreter error: ${e.message}\<close> on the error stream, exit code 2), anything
  else is thrown again, unhandled. The class \<^verbatim>\<open>BriliError\<close> is local to the interpreter,
  so a fault thrown by the heap module is none.
\<close>

datatype outcome = Completed | Reported message | Rethrown error

definition handle :: "error + unit \<Rightarrow> outcome" where
  "handle r =
     (case r of
        Inr _ \<Rightarrow> Completed
      | Inl (BriliError m) \<Rightarrow> Reported m
      | Inl e \<Rightarrow> Rethrown e)"

definition main :: "nat \<Rightarrow> program \<Rightarrow> string list \<Rightarrow> (outcome \<times> string list) option" where
  "main n prog argv =
     (case evalProg n prog argv of
        None \<Rightarrow> None
      | Some (r, w) \<Rightarrow> Some (handle r, w_out w))"

text \<open>An error is reported by \<^verbatim>\<open>main\<close> as an error of the interpreted program iff it is a \<^verbatim>\<open>BriliError\<close>.\<close>

fun reportable :: "error \<Rightarrow> bool" where
  "reportable (BriliError _) = True"
| "reportable _ = False"

section \<open>Example programs\<close>

text \<open>The programs at which the theorems below are instantiated.\<close>

definition ex_callee :: func where
  "ex_callee = \<lparr>f_name = ''f'', f_args = [\<lparr>arg_name = ''x'', arg_type = TInt\<rparr>], f_type = None,
     f_instrs = [Instr (EffectOperation OpPrint [''x''])]\<rparr>"

definition ex_two :: func where
  "ex_two = \<lparr>f_name = ''g'',
     f_args = [\<lparr>arg_name = ''x'', arg_type = TInt\<rparr>, \<lparr>arg_name = ''y'', arg_type = TInt\<rparr>],
     f_type = None, f_instrs = [Instr (EffectOperation OpPrint [''x'', ''y''])]\<rparr>"

definition ex_five :: func where
  "ex_five = \<lparr>f_name = ''five'', f_args = [], f_type = Some TInt,
     f_instrs = [Instr (Constant ''r'' (LNumber 5)), Instr (EffectOperation OpRet [''r''])]\<rparr>"

definition ex_void :: func where
  "ex_void = \<lparr>f_name = ''void'', f_args = [], f_type = None, f_instrs = []\<rparr>"

definition ex_jumps :: func where
  "ex_jumps = \<lparr>f_name = ''jumps'', f_args = [], f_type = None,
     f_instrs = [Instr (EffectOperation OpJmp [''L'']), Instr (EffectOperation OpJmp [''M'']),
                 Label ''L'', Label ''L'']\<rparr>"

definition ex_div_zero :: program where
  "ex_div_zero = \<lparr>p_functions = [\<lparr>f_name = ''main'', f_args = [], f_type = None,
     f_instrs = [Instr (Constant ''a'' (LNumber 7)), Instr (Constant ''b'' (LNumber 0)),
                 Instr (ValueOperation OpDiv ''q'' [''a'', ''b''])]\<rparr>]\<rparr>"

definition ex_leak :: program where
  "ex_leak = \<lparr>p_functions = [\<lparr>f_name = ''main'', f_args = [], f_type = None,
     f_instrs = [Instr (Constant ''n'' (LNumber 1)),
                 Instr (AllocOperation ''x'' (PtrTo (Prim TInt)) [''n''])]\<rparr>]\<rparr>"

definition ex_freed :: program where
  "ex_freed = \<lparr>p_functions = [\<lparr>f_name = ''main'', f_args = [], f_type = None,
     f_instrs = [Instr (Constant ''n'' (LNumber 1)),
                 Instr (AllocOperation ''x'' (PtrTo (Prim TInt)) [''n'']),
                 Instr (EffectOperation OpFree [''x''])]\<rparr>]\<rparr>"

definition ex_alloc_zero :: program where
  "ex_alloc_zero = \<lparr>p_functions = [\<lparr>f_name = ''main'', f_args = [], f_type = None,
     f_instrs = [Instr (Constant ''n'' (LNumber 0)),
                 Instr (AllocOperation ''x'' (PtrTo (Prim TInt)) [''n''])]\<rparr>]\<rparr>"



section \<open>Function lookup and the entry function\<close>

lemma findFunc_not_null: "findFunc fn funcs \<noteq> Inr None"
  by (simp add: findFunc_def Let_def)

lemma findFunc_none:
  "filter (\<lambda>f. f_name f = fn) funcs = [] \<Longrightarrow>
   findFunc fn funcs = Inl (BriliError (No_function_found fn))"
  by (simp add: findFunc_def)

text \<open>
  Claim C10. The lookup of a function never gives \<^verbatim>\<open>null\<close>, so the branch of the
  driver that prints a warning when \<^verbatim>\<open>main\<close> is absent is not reached. When no function
  of the table is named \<^verbatim>\<open>main\<close>, the driver throws the lookup error
  \<^verbatim>\<open>no function of name main found\<close> whatever the fuel and the arguments, with nothing
  printed and an empty heap, and \<^verbatim>\<open>main\<close> reports it. When more than one function has
  the name looked up, the lookup throws as well.
\<close>

theorem missing_main_is_lookup_error:
  "findFunc fn funcs \<noteq> Inr None \<and>
   ((\<forall>f \<in> set (p_functions prog). f_name f \<noteq> ''main'') \<longrightarrow>
      evalProg n prog argv = Some (Inl (BriliError (No_function_found ''main'')), initial_world) \<and>
      main n prog argv = Some (Reported (No_function_found ''main''), [])) \<and>
   (1 < length (filter (\<lambda>f. f_name f = fn) funcs) \<longrightarrow>
      findFunc fn funcs = Inl (BriliError (Multiple_functions_found fn)))"
proof (intro conjI impI)
  show "findFunc fn funcs \<noteq> Inr None" by (rule findFunc_not_null)
next
  assume a: "\<forall>f \<in> set (p_functions prog). f_name f \<noteq> ''main''"
  then have "filter (\<lambda>f. f_name f = ''main'') (p_functions prog) = []"
    by (simp add: filter_empty_conv)
  then have ff: "findFunc ''main'' (p_functions prog) = Inl (BriliError (No_function_found ''main''))"
    by (rule findFunc_none)
  show ep: "evalProg n prog argv = Some (Inl (BriliError (No_function_found ''main'')), initial_world)"
    by (simp add: evalProg_def ff)
  show "main n prog argv = Some (Reported (No_function_found ''main''), [])"
    by (simp add: main_def ep handle_def initial_world_def)
next
  assume "1 < length (filter (\<lambda>f. f_name f = fn) funcs)"
  then show "findFunc fn funcs = Inl (BriliError (Multiple_functions_found fn))"
    by (auto simp: findFunc_def Let_def)
qed

theorem missing_main_is_lookup_error_witness:
  "evalProg 0 \<lparr>p_functions = [\<lparr>f_name = ''f'', f_args = [], f_type = None, f_instrs = []\<rparr>]\<rparr> [''1'']
     = Some (Inl (BriliError (No_function_found ''main'')), initial_world) \<and>
   findFunc ''f'' [\<lparr>f_name = ''f'', f_args = [], f_type = None, f_instrs = []\<rparr>,
                   \<lparr>f_name = ''f'', f_args = [], f_type = Some TInt, f_instrs = []\<rparr>]
     = Inl (BriliError (Multiple_functions_found ''f''))"
  using missing_main_is_lookup_error [of "''f''"
      "[\<lparr>f_name = ''f'', f_args = [], f_type = None, f_instrs = []\<rparr>,
        \<lparr>f_name = ''f'', f_args = [], f_type = Some TInt, f_instrs = []\<rparr>]"
      "\<lparr>p_functions = [\<lparr>f_name = ''f'', f_args = [], f_type = None, f_instrs = []\<rparr>]\<rparr>" 0 "[''1'']"]
  by simp

section \<open>Calls\<close>

lemma bind_call_args_first_fault:
  "length ps = length as \<Longrightarrow> i < length as \<Longrightarrow>
   \<forall>j < i. \<exists>v. env (as ! j) = Some v \<and>
       typeof v = brilTypeToDynamicType (arg_type (ps ! j)) \<Longrightarrow>
   (env (as ! i) = None \<longrightarrow>
      bind_call_args ps as env newEnv = Inl (BriliError (Undefined_variable (as ! i)))) \<and>
   (\<forall>v. env (as ! i) = Some v \<and> typeof v \<noteq> brilTypeToDynamicType (arg_type (ps ! i)) \<longrightarrow>
      bind_call_args ps as env newEnv = Inl (BriliError Function_argument_type_mismatch))"
proof (induction ps as arbitrary: i newEnv rule: list_induct2)
  case Nil
  then show ?case by simp
next
  case (Cons p ps a as)
  show ?case
  proof (cases i)
    case 0
    then show ?thesis by (auto simp: get_def)
  next
    case (Suc k)
    from Cons.prems(2) Suc obtain v where v: "env a = Some v"
      "typeof v = brilTypeToDynamicType (arg_type p)"
      by (metis nth_Cons_0 zero_less_Suc)
    have step: "bind_call_args (p # ps) (a # as) env newEnv
        = bind_call_args ps as env (newEnv(arg_name p \<mapsto> v))"
      using v by (simp add: get_def)
    from Cons.prems(2) have early: "\<forall>j < k. \<exists>v. env (as ! j) = Some v \<and>
       typeof v = brilTypeToDynamicType (arg_type (ps ! j))"
      unfolding Suc by (metis Suc_less_eq nth_Cons_Suc)
    from Cons.prems(1) Suc have k: "k < length as" by simp
    show ?thesis unfolding step Suc nth_Cons_Suc by (rule Cons.IH [OF k early])
  qed
qed

lemma bind_call_args_mismatch_any:
  "length ps = length as \<Longrightarrow>
   \<exists>i < length as. \<exists>v. env (as ! i) = Some v \<and>
       typeof v \<noteq> brilTypeToDynamicType (arg_type (ps ! i)) \<Longrightarrow>
   \<exists>m. bind_call_args ps as env newEnv = Inl (BriliError m)"
proof (induction ps as arbitrary: newEnv rule: list_induct2)
  case Nil
  then show ?case by simp
next
  case (Cons p ps a as)
  show ?case
  proof (cases "env a")
    case None
    then show ?thesis by (simp add: get_def)
  next
    case (Some v)
    show ?thesis
    proof (cases "brilTypeToDynamicType (arg_type p) = typeof v")
      case False
      then show ?thesis using Some by (simp add: get_def)
    next
      case True
      from Cons.prems obtain i u where i: "i < length (a # as)"
        "env ((a # as) ! i) = Some u" "typeof u \<noteq> brilTypeToDynamicType (arg_type ((p # ps) ! i))"
        by blast
      have "i \<noteq> 0"
      proof
        assume "i = 0"
        with i Some True show False by simp
      qed
      then obtain j where j: "i = Suc j" by (cases i) auto
      with i have "\<exists>i < length as. \<exists>v. env (as ! i) = Some v \<and>
         typeof v \<noteq> brilTypeToDynamicType (arg_type (ps ! i))" by auto
      then have "\<exists>m. bind_call_args ps as env (newEnv(arg_name p \<mapsto> v)) = Inl (BriliError m)"
        by (rule Cons.IH)
      moreover have "bind_call_args (p # ps) (a # as) env newEnv
          = bind_call_args ps as env (newEnv(arg_name p \<mapsto> v))"
        using Some True by (simp add: get_def)
      ultimately show ?thesis by simp
    qed
  qed
qed

text \<open>
  Against claim C3 as stated: the arguments are checked in order, so an unbound argument
  ahead of an argument of the wrong type is what the call reports, as an undefined
  variable, which is neither the arity error nor the type mismatch.
\<close>

theorem call_unbound_argument_first:
  "evalCall 9 ''g'' [''u'', ''a''] None None (Map.empty(''a'' \<mapsto> VBool True)) [ex_two] initial_world
     = Some (Inl (BriliError (Undefined_variable ''u'')), initial_world)"
  by (simp add: evalCall.simps findFunc_def ex_two_def get_def)

text \<open>
  Claim C3, amended. Let the callee be found. A run of the callee needs fuel, and none
  is used: if the number of arguments at the call differs from the number of parameters
  of the callee, the call throws the arity error; if the numbers agree, the arguments
  are checked in order, and the first argument that is unbound, or bound to a value
  whose host type is not that of the parameter at its position, makes the call throw
  the undefined variable or the argument type mismatch; whenever some argument has the
  wrong type the call throws a \<^verbatim>\<open>BriliError\<close>. In each case the heap and the output are
  those before the call, whatever the fuel and the body of the callee: no instruction
  of the callee has run.
\<close>

theorem call_checks_precede_callee:
  "findFunc name funcs = Inr (Some func) \<Longrightarrow>
   evalFuncInEnv 0 func funcs newEnv w = None \<and>
   (length (f_args func) \<noteq> length args \<longrightarrow>
      evalCall n name args dest type env funcs w =
        Some (Inl (BriliError (Function_expected_arguments (length (f_args func)) (length args))), w)) \<and>
   (length (f_args func) = length args \<and> i < length args \<and>
    (\<forall>j < i. \<exists>v. env (args ! j) = Some v \<and>
        typeof v = brilTypeToDynamicType (arg_type (f_args func ! j))) \<longrightarrow>
      (env (args ! i) = None \<longrightarrow>
         evalCall n name args dest type env funcs w =
           Some (Inl (BriliError (Undefined_variable (args ! i))), w)) \<and>
      (\<forall>v. env (args ! i) = Some v \<and>
           typeof v \<noteq> brilTypeToDynamicType (arg_type (f_args func ! i)) \<longrightarrow>
         evalCall n name args dest type env funcs w =
           Some (Inl (BriliError Function_argument_type_mismatch), w))) \<and>
   (length (f_args func) = length args \<and>
    (\<exists>i < length args. \<exists>v. env (args ! i) = Some v \<and>
        typeof v \<noteq> brilTypeToDynamicType (arg_type (f_args func ! i))) \<longrightarrow>
      (\<exists>m. evalCall n name args dest type env funcs w = Some (Inl (BriliError m), w)))"
proof (intro conjI impI allI)
  show "evalFuncInEnv 0 func funcs newEnv w = None" by (simp add: evalFuncInEnv_from.simps)
next
  assume f: "findFunc name funcs = Inr (Some func)"
  assume "length (f_args func) \<noteq> length args"
  then show "evalCall n name args dest type env funcs w =
        Some (Inl (BriliError (Function_expected_arguments (length (f_args func)) (length args))), w)"
    using f by (simp add: evalCall.simps)
next
  assume f: "findFunc name funcs = Inr (Some func)"
  assume h: "length (f_args func) = length args \<and> i < length args \<and>
    (\<forall>j < i. \<exists>v. env (args ! j) = Some v \<and>
        typeof v = brilTypeToDynamicType (arg_type (f_args func ! j)))"
  assume "env (args ! i) = None"
  with h have "bind_call_args (f_args func) args env Map.empty
      = Inl (BriliError (Undefined_variable (args ! i)))"
    using bind_call_args_first_fault [of "f_args func" args i env Map.empty] by blast
  then show "evalCall n name args dest type env funcs w =
           Some (Inl (BriliError (Undefined_variable (args ! i))), w)"
    using f h by (simp add: evalCall.simps)
next
  fix v
  assume f: "findFunc name funcs = Inr (Some func)"
  assume h: "length (f_args func) = length args \<and> i < length args \<and>
    (\<forall>j < i. \<exists>v. env (args ! j) = Some v \<and>
        typeof v = brilTypeToDynamicType (arg_type (f_args func ! j)))"
  assume "env (args ! i) = Some v \<and>
           typeof v \<noteq> brilTypeToDynamicType (arg_type (f_args func ! i))"
  with h have "bind_call_args (f_args func) args env Map.empty
      = Inl (BriliError Function_argument_type_mismatch)"
    using bind_call_args_first_fault [of "f_args func" args i env Map.empty] by blast
  then show "evalCall n name args dest type env funcs w =
           Some (Inl (BriliError Function_argument_type_mismatch), w)"
    using f h by (simp add: evalCall.simps)
next
  assume f: "findFunc name funcs = Inr (Some func)"
  assume h: "length (f_args func) = length args \<and>
    (\<exists>i < length args. \<exists>v. env (args ! i) = Some v \<and>
        typeof v \<noteq> brilTypeToDynamicType (arg_type (f_args func ! i)))"
  then obtain m where "bind_call_args (f_args func) args env Map.empty = Inl (BriliError m)"
    using bind_call_args_mismatch_any [of "f_args func" args env Map.empty] by blast
  then show "\<exists>m. evalCall n name args dest type env funcs w = Some (Inl (BriliError m), w)"
    using f h by (simp add: evalCall.simps)
qed

theorem call_checks_precede_callee_witness:
  "findFunc ''g'' [ex_two] = Inr (Some ex_two) \<and>
   evalCall 9 ''g'' [''a''] None None (Map.empty(''a'' \<mapsto> VBool True, ''b'' \<mapsto> VInt 1)) [ex_two]
       initial_world
     = Some (Inl (BriliError (Function_expected_arguments 2 1)), initial_world) \<and>
   evalCall 9 ''g'' [''b'', ''a''] None None (Map.empty(''a'' \<mapsto> VBool True, ''b'' \<mapsto> VInt 1)) [ex_two]
       initial_world
     = Some (Inl (BriliError Function_argument_type_mismatch), initial_world) \<and>
   evalCall 9 ''g'' [''a'', ''u''] None None (Map.empty(''a'' \<mapsto> VBool True, ''b'' \<mapsto> VInt 1)) [ex_two]
       initial_world
     = Some (Inl (BriliError Function_argument_type_mismatch), initial_world) \<and>
   evalCall 9 ''g'' [''b'', ''u''] None None (Map.empty(''a'' \<mapsto> VBool True, ''b'' \<mapsto> VInt 1)) [ex_two]
       initial_world
     = Some (Inl (BriliError (Undefined_variable ''u'')), initial_world)"
  using call_checks_precede_callee [where name = "''g''" and funcs = "[ex_two]"
      and func = ex_two and args = "[''a'']"
      and env = "Map.empty(''a'' \<mapsto> VBool True, ''b'' \<mapsto> VInt 1)"
      and n = 9 and dest = None and type = None and w = initial_world]
    call_checks_precede_callee [where name = "''g''" and funcs = "[ex_two]"
      and func = ex_two and args = "[''b'', ''a'']" and i = 1
      and env = "Map.empty(''a'' \<mapsto> VBool True, ''b'' \<mapsto> VInt 1)"
      and n = 9 and dest = None and type = None and w = initial_world]
    call_checks_precede_callee [where name = "''g''" and funcs = "[ex_two]"
      and func = ex_two and args = "[''a'', ''u'']" and i = 0
      and env = "Map.empty(''a'' \<mapsto> VBool True, ''b'' \<mapsto> VInt 1)"
      and n = 9 and dest = None and type = None and w = initial_world]
    call_checks_precede_callee [where name = "''g''" and funcs = "[ex_two]"
      and func = ex_two and args = "[''b'', ''u'']" and i = 1
      and env = "Map.empty(''a'' \<mapsto> VBool True, ''b'' \<mapsto> VInt 1)"
      and n = 9 and dest = None and type = None and w = initial_world]
  by (simp add: findFunc_def ex_two_def)

text \<open>
  Claim C4. A call with a destination and a type, whose callee is found, takes the
  right number of bound and well-typed arguments and returns: when the callee returns
  no value the call throws \<^verbatim>\<open>non-void function ... doesn't return anything\<close>; when the
  host type of the returned value is not that of the type at the call it throws
  \<^verbatim>\<open>type of value returned by function does not match destination type\<close>; when these
  agree and the declared return type of the callee is not the type at the call it
  throws \<^verbatim>\<open>type of value returned by function does not match declaration\<close>; otherwise
  the returned value is bound to the destination in the environment of the caller.
\<close>

theorem call_return_reconciled:
  "findFunc name funcs = Inr (Some func) \<Longrightarrow>
   length (f_args func) = length args \<Longrightarrow>
   bind_call_args (f_args func) args env Map.empty = Inr newEnv \<Longrightarrow>
   evalFuncInEnv n func funcs newEnv w = Some (Inr retVal, w') \<Longrightarrow>
   (retVal = None \<longrightarrow>
      evalCall n name args (Some d) (Some t) env funcs w =
        Some (Inl (BriliError (Non_void_returns_nothing (f_type func))), w')) \<and>
   (\<forall>v. retVal = Some v \<longrightarrow>
      (typeof v \<noteq> brilTypeToDynamicType t \<longrightarrow>
         evalCall n name args (Some d) (Some t) env funcs w =
           Some (Inl (BriliError Returned_type_not_destination_type), w')) \<and>
      (typeof v = brilTypeToDynamicType t \<and> f_type func \<noteq> Some t \<longrightarrow>
         evalCall n name args (Some d) (Some t) env funcs w =
           Some (Inl (BriliError Returned_type_not_declaration), w')) \<and>
      (typeof v = brilTypeToDynamicType t \<and> f_type func = Some t \<longrightarrow>
         evalCall n name args (Some d) (Some t) env funcs w =
           Some (Inr (ANext, env(d \<mapsto> v)), w')))"
  by (auto simp: evalCall.simps)
lemma ex_five_returns:
  "evalFuncInEnv 2 ex_five fs Map.empty initial_world = Some (Inr (Some (VInt 5)), initial_world)"
  by (simp add: ex_five_def eval_nat_numeral evalFuncInEnv_from.simps evalInstr.simps get_def)

lemma ex_void_returns:
  "evalFuncInEnv 1 ex_void fs Map.empty initial_world = Some (Inr None, initial_world)"
  by (simp add: ex_void_def evalFuncInEnv_from.simps)

theorem call_return_reconciled_witness:
  "evalCall 1 ''void'' [] (Some ''y'') (Some TInt) Map.empty [ex_five, ex_void] initial_world
     = Some (Inl (BriliError (Non_void_returns_nothing None)), initial_world) \<and>
   evalCall 2 ''five'' [] (Some ''y'') (Some TBool) Map.empty [ex_five, ex_void] initial_world
     = Some (Inl (BriliError Returned_type_not_destination_type), initial_world) \<and>
   evalCall 2 ''five'' [] (Some ''y'') (Some TInt) Map.empty [ex_five\<lparr>f_type := None\<rparr>] initial_world
     = Some (Inl (BriliError Returned_type_not_declaration), initial_world) \<and>
   evalCall 2 ''five'' [] (Some ''y'') (Some TInt) Map.empty [ex_five, ex_void] initial_world
     = Some (Inr (ANext, Map.empty(''y'' \<mapsto> VInt 5)), initial_world)"
proof -
  have f1: "findFunc ''void'' [ex_five, ex_void] = Inr (Some ex_void)"
    and f2: "findFunc ''five'' [ex_five, ex_void] = Inr (Some ex_five)"
    and f3: "findFunc ''five'' [ex_five\<lparr>f_type := None\<rparr>] = Inr (Some (ex_five\<lparr>f_type := None\<rparr>))"
    by (simp_all add: findFunc_def ex_five_def ex_void_def)
  have r3: "evalFuncInEnv 2 (ex_five\<lparr>f_type := None\<rparr>) fs Map.empty initial_world
      = Some (Inr (Some (VInt 5)), initial_world)" for fs
    by (simp add: ex_five_def eval_nat_numeral evalFuncInEnv_from.simps evalInstr.simps get_def)
  show ?thesis
    using call_return_reconciled [where args = "[]" and env = Map.empty and d = "''y''" and t = TInt, OF f1 _ _ ex_void_returns]
      call_return_reconciled [where args = "[]" and env = Map.empty and d = "''y''" and t = TBool, OF f2 _ _ ex_five_returns]
      call_return_reconciled [where args = "[]" and env = Map.empty and d = "''y''" and t = TInt, OF f3 _ _ r3]
      call_return_reconciled [where args = "[]" and env = Map.empty and d = "''y''" and t = TInt, OF f2 _ _ ex_five_returns]
    by (simp add: ex_five_def ex_void_def)
qed

section \<open>Labels and the end of a function\<close>

lemma findLabel_le: "findLabel xs l \<le> length xs"
  by (induction xs) (auto split: line.splits)

lemma findLabel_found:
  "Label l \<in> set xs \<Longrightarrow> findLabel xs l < length xs \<and> xs ! findLabel xs l = Label l"
  by (induction xs) (auto split: line.splits)

lemma findLabel_first: "k < findLabel xs l \<Longrightarrow> xs ! k \<noteq> Label l"
proof (induction xs arbitrary: k)
  case Nil then show ?case by simp
next
  case (Cons x xs)
  then show ?case by (cases k) (auto split: line.splits if_splits)
qed

lemma findLabel_absent: "Label l \<notin> set xs \<Longrightarrow> findLabel xs l = length xs"
  by (induction xs) (auto split: line.splits)

text \<open>
  Claim C6. When the instruction at index \<open>i\<close> yields a jump to a label, the search
  from index 0 stops at the first line that is this label: the counter is set to its
  index, and the increment of the loop makes the run go on after that line. When no
  line is this label, the function throws \<^verbatim>\<open>label ... not found\<close>. A counter past the
  last line ends the function with no return value.
\<close>

theorem jump_resolves_first_label:
  "(i < length (f_instrs func) \<and> f_instrs func ! i = Instr ins \<and>
    evalInstr n ins env funcs w = Some (Inr (ALabel l, env'), w') \<longrightarrow>
      (Label l \<in> set (f_instrs func) \<longrightarrow>
         findLabel (f_instrs func) l < length (f_instrs func) \<and>
         f_instrs func ! findLabel (f_instrs func) l = Label l \<and>
         (\<forall>k < findLabel (f_instrs func) l. f_instrs func ! k \<noteq> Label l) \<and>
         evalFuncInEnv_from (Suc n) func funcs i env w =
           evalFuncInEnv_from n func funcs (findLabel (f_instrs func) l + 1) env' w') \<and>
      (Label l \<notin> set (f_instrs func) \<longrightarrow>
         evalFuncInEnv_from (Suc n) func funcs i env w =
           Some (Inl (BriliError (Label_not_found l)), w'))) \<and>
   (length (f_instrs func) \<le> i \<longrightarrow>
      evalFuncInEnv_from (Suc n) func funcs i env w = Some (Inr None, w))"
proof (intro conjI impI allI)
  assume h: "i < length (f_instrs func) \<and> f_instrs func ! i = Instr ins \<and>
    evalInstr n ins env funcs w = Some (Inr (ALabel l, env'), w')"
  assume p: "Label l \<in> set (f_instrs func)"
  from findLabel_found [OF p]
  show "findLabel (f_instrs func) l < length (f_instrs func)"
    and "f_instrs func ! findLabel (f_instrs func) l = Label l" by simp_all
  from findLabel_found [OF p] h
  show "evalFuncInEnv_from (Suc n) func funcs i env w =
           evalFuncInEnv_from n func funcs (findLabel (f_instrs func) l + 1) env' w'"
    by (simp add: evalFuncInEnv_from.simps Let_def)
next
  fix k
  assume "k < findLabel (f_instrs func) l"
  then show "f_instrs func ! k \<noteq> Label l" by (rule findLabel_first)
next
  assume h: "i < length (f_instrs func) \<and> f_instrs func ! i = Instr ins \<and>
    evalInstr n ins env funcs w = Some (Inr (ALabel l, env'), w')"
  assume p: "Label l \<notin> set (f_instrs func)"
  from findLabel_absent [OF p] h
  show "evalFuncInEnv_from (Suc n) func funcs i env w =
           Some (Inl (BriliError (Label_not_found l)), w')"
    by (simp add: evalFuncInEnv_from.simps Let_def)
next
  assume "length (f_instrs func) \<le> i"
  then show "evalFuncInEnv_from (Suc n) func funcs i env w = Some (Inr None, w)"
    by (simp add: evalFuncInEnv_from.simps)
qed

theorem jump_resolves_first_label_witness:
  "findLabel (f_instrs ex_jumps) ''L'' = 2 \<and>
   evalFuncInEnv_from 3 ex_jumps [] 0 Map.empty initial_world
     = evalFuncInEnv_from 2 ex_jumps [] 3 Map.empty initial_world \<and>
   evalFuncInEnv_from 3 ex_jumps [] 1 Map.empty initial_world
     = Some (Inl (BriliError (Label_not_found ''M'')), initial_world) \<and>
   evalFuncInEnv_from 3 ex_jumps [] 4 Map.empty initial_world = Some (Inr None, initial_world)"
  using jump_resolves_first_label [of 0 ex_jumps "EffectOperation OpJmp [''L'']" 2 Map.empty "[]"
      initial_world "''L''" Map.empty initial_world]
    jump_resolves_first_label [of 1 ex_jumps "EffectOperation OpJmp [''M'']" 2 Map.empty "[]"
      initial_world "''M''" Map.empty initial_world]
    jump_resolves_first_label [of 4 ex_jumps "EffectOperation OpJmp [''M'']" 2 Map.empty "[]"
      initial_world "''M''" Map.empty initial_world]
  by (simp add: ex_jumps_def evalInstr.simps checkArgs_def eval_nat_numeral)

section \<open>Single instructions\<close>

text \<open>Unfolding the loop of a function by one turn, for a run on given fuel.\<close>

lemma evalFuncInEnv_from_fuel:
  "0 < m \<Longrightarrow>
   evalFuncInEnv_from m func funcs i env w =
     (if i < length (f_instrs func) then
        (case f_instrs func ! i of
           Label _ \<Rightarrow> evalFuncInEnv_from (m - 1) func funcs (i + 1) env w
         | Instr line \<Rightarrow>
             (case evalInstr (m - 1) line env funcs w of
                None \<Rightarrow> None
              | Some (Inl e, w') \<Rightarrow> Some (Inl e, w')
              | Some (Inr (act, env'), w') \<Rightarrow>
                  (case act of
                     ALabel l \<Rightarrow>
                       (let j = findLabel (f_instrs func) l
                        in if j = length (f_instrs func)
                           then Some (Inl (BriliError (Label_not_found l)), w')
                           else evalFuncInEnv_from (m - 1) func funcs (j + 1) env' w')
                   | ANext \<Rightarrow> evalFuncInEnv_from (m - 1) func funcs (i + 1) env' w'
                   | AEnd v \<Rightarrow> Some (Inr v, w'))))
      else Some (Inr None, w))"
proof -
  assume "0 < m"
  then obtain n where m: "m = Suc n" by (cases m) auto
  show ?thesis unfolding m diff_Suc_1 by (rule evalFuncInEnv_from.simps(2))
qed

lemmas fuel_numeral = evalFuncInEnv_from_fuel evalFuncInEnv_from.simps(1)

lemmas arg_defs = getInt_def getBool_def getPtr_def getArgument_def get_arg_def get_def checkArgs_def

lemmas run_defs = main_def evalProg_def findFunc_def parseMainArguments_def fuel_numeral evalInstr.simps handle_def initial_world_def check_heap_def
  heap_isEmpty_def empty_heap_def alloc_def heap_alloc_def heap_free_def toNumber_def round53_def

subsection \<open>Conjunction and disjunction\<close>

text \<open>
  Claim C1. The operands of \<^verbatim>\<open>and\<close> and \<^verbatim>\<open>or\<close> are read with the host's \<^verbatim>\<open>&&\<close> and
  \<^verbatim>\<open>||\<close>, which do not evaluate their right operand when the left one decides: an
  \<^verbatim>\<open>and\<close> whose first operand is false binds false, and an \<^verbatim>\<open>or\<close> whose first operand
  is true binds true, whatever the second identifier is bound to, also when it is
  unbound or bound to an integer. The second operand is looked up and checked only in
  the other case (\<open>and_or_second_operand_checked\<close>), as both operands of every
  arithmetic instruction and comparison are.
\<close>

theorem and_or_short_circuit:
  "(env a = Some (VBool False) \<longrightarrow>
      evalInstr n (ValueOperation OpAnd d [a, b]) env funcs w
        = Some (Inr (ANext, env(d \<mapsto> VBool False)), w)) \<and>
   (env a = Some (VBool True) \<longrightarrow>
      evalInstr n (ValueOperation OpOr d [a, b]) env funcs w
        = Some (Inr (ANext, env(d \<mapsto> VBool True)), w))"
  by (simp add: evalInstr.simps arg_defs)

theorem and_or_short_circuit_witness:
  "evalInstr 0 (ValueOperation OpAnd ''c'' [''a'', ''b'']) (Map.empty(''a'' \<mapsto> VBool False)) [] initial_world
     = Some (Inr (ANext, (Map.empty(''a'' \<mapsto> VBool False))(''c'' \<mapsto> VBool False)), initial_world) \<and>
   evalInstr 0 (ValueOperation OpOr ''c'' [''a'', ''b''])
       (Map.empty(''a'' \<mapsto> VBool True, ''b'' \<mapsto> VInt 3)) [] initial_world
     = Some (Inr (ANext, (Map.empty(''a'' \<mapsto> VBool True, ''b'' \<mapsto> VInt 3))(''c'' \<mapsto> VBool True)),
             initial_world)"
  using and_or_short_circuit [of "Map.empty(''a'' \<mapsto> VBool False)" "''a''" 0 "''c''" "''b''" "[]" initial_world]
    and_or_short_circuit [of "Map.empty(''a'' \<mapsto> VBool True, ''b'' \<mapsto> VInt 3)" "''a''" 0 "''c''" "''b''" "[]" initial_world]
  by simp

lemma and_or_second_operand_checked:
  "env a = Some (VBool True) \<Longrightarrow> env b = None \<Longrightarrow>
   evalInstr n (ValueOperation OpAnd d [a, b]) env funcs w
     = Some (Inl (BriliError (Undefined_variable b)), w)"
  by (simp add: evalInstr.simps arg_defs)

subsection \<open>Division\<close>

text \<open>
  Against claim C2 as stated: a division by zero throws the host's \<^verbatim>\<open>RangeError\<close>,
  which is no \<^verbatim>\<open>BriliError\<close>; \<^verbatim>\<open>main\<close> does not report it and throws it again.
\<close>

theorem div_by_zero_not_reported:
  "evalInstr 0 (ValueOperation OpDiv ''q'' [''a'', ''b''])
       (Map.empty(''a'' \<mapsto> VInt 7, ''b'' \<mapsto> VInt 0)) [] initial_world
     = Some (Inl RangeError, initial_world) \<and>
   \<not> reportable RangeError \<and>
   main 4 ex_div_zero [] = Some (Rethrown RangeError, [])"
  by (simp add: evalInstr.simps arg_defs main_def evalProg_def findFunc_def ex_div_zero_def
      parseMainArguments_def fuel_numeral handle_def
      initial_world_def)

text \<open>
  Claim C2, amended. For a \<^verbatim>\<open>div\<close> whose operands are bound to integers: when the
  divisor is 0, the instruction throws the host's \<^verbatim>\<open>RangeError\<close>, which \<^verbatim>\<open>main\<close> throws
  again instead of reporting it; when the divisor is not 0, the destination is bound to
  the quotient truncated towards zero, which for a nonnegative dividend and a positive
  divisor is the quotient \<open>q\<close> with \<open>q * y \<le> x < q * y + y\<close>.
\<close>

theorem div_truncates_or_range_error:
  "env a = Some (VInt x) \<Longrightarrow> env b = Some (VInt y) \<Longrightarrow>
   (y = 0 \<longrightarrow>
      evalInstr n (ValueOperation OpDiv d [a, b]) env funcs w = Some (Inl RangeError, w) \<and>
      handle (Inl RangeError) = Rethrown RangeError) \<and>
   (y \<noteq> 0 \<longrightarrow>
      evalInstr n (ValueOperation OpDiv d [a, b]) env funcs w
        = Some (Inr (ANext, env(d \<mapsto> VInt (x sdiv y))), w)) \<and>
   (0 \<le> x \<and> 0 < y \<longrightarrow> x sdiv y = x div y \<and> (x sdiv y) * y \<le> x \<and> x < (x sdiv y) * y + y)"
proof (intro conjI impI)
  assume "0 \<le> x \<and> 0 < y"
  then show q: "x sdiv y = x div y"
    by (simp add: signed_divide_int_def sgn_if)
  from \<open>0 \<le> x \<and> 0 < y\<close> have m: "0 \<le> x mod y" "x mod y < y" by simp_all
  from m show "(x sdiv y) * y \<le> x" unfolding q
    using div_mult_mod_eq [of x y] by linarith
  from m show "x < (x sdiv y) * y + y" unfolding q
    using div_mult_mod_eq [of x y] by linarith
qed (simp_all add: evalInstr.simps arg_defs handle_def)

theorem div_truncates_or_range_error_witness:
  "evalInstr 0 (ValueOperation OpDiv ''q'' [''a'', ''b''])
       (Map.empty(''a'' \<mapsto> VInt 7, ''b'' \<mapsto> VInt 2)) [] initial_world
     = Some (Inr (ANext, (Map.empty(''a'' \<mapsto> VInt 7, ''b'' \<mapsto> VInt 2))(''q'' \<mapsto> VInt 3)), initial_world) \<and>
   evalInstr 0 (ValueOperation OpDiv ''q'' [''a'', ''b''])
       (Map.empty(''a'' \<mapsto> VInt (- 7), ''b'' \<mapsto> VInt 2)) [] initial_world
     = Some (Inr (ANext, (Map.empty(''a'' \<mapsto> VInt (- 7), ''b'' \<mapsto> VInt 2))(''q'' \<mapsto> VInt (- 3))), initial_world) \<and>
   evalInstr 0 (ValueOperation OpDiv ''q'' [''a'', ''b''])
       (Map.empty(''a'' \<mapsto> VInt 7, ''b'' \<mapsto> VInt 0)) [] initial_world
     = Some (Inl RangeError, initial_world)"
  using div_truncates_or_range_error [of "Map.empty(''a'' \<mapsto> VInt 7, ''b'' \<mapsto> VInt 2)" "''a''" 7 "''b''" 2 0 "''q''" "[]" initial_world]
   div_truncates_or_range_error [of "Map.empty(''a'' \<mapsto> VInt (- 7), ''b'' \<mapsto> VInt 2)" "''a''" "- 7" "''b''" 2 0 "''q''" "[]" initial_world]
   div_truncates_or_range_error [of "Map.empty(''a'' \<mapsto> VInt 7, ''b'' \<mapsto> VInt 0)" "''a''" 7 "''b''" 0 0 "''q''" "[]" initial_world]
  by (simp add: signed_divide_int_def)

subsection \<open>Allocation\<close>

lemma toNumber_small:
  assumes "\<bar>k\<bar> < 2 ^ 53"
  shows "toNumber k = Num k"
proof -
  from assms have s: "nat \<bar>k\<bar> < 2 ^ 53" by simp
  then have r: "round53 (nat \<bar>k\<bar>) = nat \<bar>k\<bar>" by (simp add: round53_def)
  have "(2::nat) ^ 53 \<le> 2 ^ 1024" by (rule power_increasing) simp_all
  with s have "\<not> 2 ^ 1024 \<le> nat \<bar>k\<bar>" by linarith
  then show ?thesis unfolding toNumber_def Let_def r by (simp add: abs_if)
qed

lemma num_le0_toNumber: "k \<le> 0 \<Longrightarrow> num_le0 (toNumber k)"
  by (cases "k = 0") (simp_all add: toNumber_def Let_def round53_def)

text \<open>
  Claim C9. An \<^verbatim>\<open>alloc\<close> whose count is bound to an integer \<open>k\<close>: when \<open>k \<le> 0\<close> it throws
  the string \<^verbatim>\<open>must allocate a positive amount of memory\<close>, which is no \<^verbatim>\<open>BriliError\<close>, so
  that \<^verbatim>\<open>main\<close> throws it again instead of reporting it; when \<open>0 < k < 2 ^ 53\<close> (the
  count goes through a host number) the heap gets a new block of \<open>k\<close> uninitialized
  slots under a fresh identifier, and the destination is bound to a pointer to offset 0
  of it, whose type is the pointee type when that is \<^verbatim>\<open>int\<close> or \<^verbatim>\<open>bool\<close> and \<^verbatim>\<open>ptr\<close>
  otherwise.
\<close>

theorem alloc_checks_count:
  "env a = Some (VInt k) \<Longrightarrow>
   (k \<le> 0 \<longrightarrow>
      evalInstr n (AllocOperation d (PtrTo t) [a]) env funcs w
        = Some (Inl (Thrown (Must_allocate_positive (toNumber k))), w) \<and>
      \<not> reportable (Thrown (Must_allocate_positive (toNumber k))) \<and>
      handle (Inl (Thrown (Must_allocate_positive (toNumber k))))
        = Rethrown (Thrown (Must_allocate_positive (toNumber k)))) \<and>
   (0 < k \<and> k < 2 ^ 53 \<longrightarrow>
      evalInstr n (AllocOperation d (PtrTo t) [a]) env funcs w
        = Some (Inr (ANext,
                  env(d \<mapsto> VPtr \<lparr>loc = \<lparr>base = count (w_heap w), offset = Num 0\<rparr>,
                                  ptr_type = (if t = Prim TInt then TInt
                                              else if t = Prim TBool then TBool else TPtr)\<rparr>)),
                w\<lparr>w_heap := (w_heap w)
                    \<lparr>storage := storage (w_heap w) @ [(count (w_heap w), replicate (nat k) None)],
                     count := Suc (count (w_heap w))\<rparr>\<rparr>))"
proof (intro conjI impI)
  assume a: "env a = Some (VInt k)" and k: "k \<le> 0"
  then show "evalInstr n (AllocOperation d (PtrTo t) [a]) env funcs w
        = Some (Inl (Thrown (Must_allocate_positive (toNumber k))), w)"
    by (simp add: evalInstr.simps arg_defs alloc_def num_le0_toNumber)
next
  assume a: "env a = Some (VInt k)" and k: "0 < k \<and> k < 2 ^ 53"
  then have "toNumber k = Num k" by (simp add: toNumber_small)
  with a k show "evalInstr n (AllocOperation d (PtrTo t) [a]) env funcs w
        = Some (Inr (ANext,
                  env(d \<mapsto> VPtr \<lparr>loc = \<lparr>base = count (w_heap w), offset = Num 0\<rparr>,
                                  ptr_type = (if t = Prim TInt then TInt
                                              else if t = Prim TBool then TBool else TPtr)\<rparr>)),
                w\<lparr>w_heap := (w_heap w)
                    \<lparr>storage := storage (w_heap w) @ [(count (w_heap w), replicate (nat k) None)],
                     count := Suc (count (w_heap w))\<rparr>\<rparr>)"
    by (cases t) (simp_all add: evalInstr.simps arg_defs alloc_def heap_alloc_def split: ty.splits)
qed (simp_all add: handle_def)

theorem alloc_checks_count_witness:
  "evalInstr 0 (AllocOperation ''x'' (PtrTo (Prim TInt)) [''n'']) (Map.empty(''n'' \<mapsto> VInt 0)) []
       initial_world
     = Some (Inl (Thrown (Must_allocate_positive (Num 0))), initial_world) \<and>
   evalInstr 0 (AllocOperation ''x'' (PtrTo (PtrTo (Prim TInt))) [''n'']) (Map.empty(''n'' \<mapsto> VInt 2)) []
       initial_world
     = Some (Inr (ANext, (Map.empty(''n'' \<mapsto> VInt 2))
                    (''x'' \<mapsto> VPtr \<lparr>loc = \<lparr>base = 0, offset = Num 0\<rparr>, ptr_type = TPtr\<rparr>)),
             \<lparr>w_heap = \<lparr>storage = [(0, [None, None])], count = 1\<rparr>, w_out = []\<rparr>)"
proof -
  have r: "replicate 2 (None :: val option) = [None, None]"
    by (simp add: numeral_2_eq_2)
  show ?thesis
  using alloc_checks_count [of "Map.empty(''n'' \<mapsto> VInt 0)" "''n''" 0 0 "''x''" "Prim TInt" "[]" initial_world]
    alloc_checks_count [of "Map.empty(''n'' \<mapsto> VInt 2)" "''n''" 2 0 "''x''" "PtrTo (Prim TInt)" "[]" initial_world]
  by (simp add: toNumber_small initial_world_def empty_heap_def r)
qed

lemma alloc_zero_run:
  "main 2 ex_alloc_zero [] = Some (Rethrown (Thrown (Must_allocate_positive (Num 0))), [])"
  by (simp add: ex_alloc_zero_def run_defs arg_defs toNumber_small)

subsection \<open>Store\<close>





section \<open>The end of the run\<close>

text \<open>
  Claim C5. When the entry function returns, the driver looks at the heap: when a block
  is live it throws the string
  \<^verbatim>\<open>Some memory locations have not been freed by end of execution.\<close>, which is no
  \<^verbatim>\<open>BriliError\<close>, so that \<^verbatim>\<open>main\<close> throws it again instead of reporting it; when no
  block is live the run completes.
\<close>

theorem leak_is_thrown_string:
  "findFunc ''main'' (p_functions prog) = Inr (Some m) \<Longrightarrow>
   parseMainArguments (f_args m) argv = Inr newEnv \<Longrightarrow>
   evalFuncInEnv n m (p_functions prog) newEnv initial_world = Some (Inr rv, w) \<Longrightarrow>
   (\<not> heap_isEmpty (w_heap w) \<longrightarrow>
      evalProg n prog argv = Some (Inl (Thrown Memory_not_freed), w) \<and>
      main n prog argv = Some (Rethrown (Thrown Memory_not_freed), w_out w)) \<and>
   (heap_isEmpty (w_heap w) \<longrightarrow>
      evalProg n prog argv = Some (Inr (), w) \<and>
      main n prog argv = Some (Completed, w_out w))"
  by (simp add: evalProg_def main_def check_heap_def handle_def)

theorem leak_is_thrown_string_witness:
  "main 3 ex_leak [] = Some (Rethrown (Thrown Memory_not_freed), []) \<and>
   main 4 ex_freed [] = Some (Completed, [])"
proof -
  have a: "evalFuncInEnv 3 (hd (p_functions ex_leak)) (p_functions ex_leak) Map.empty initial_world
      = Some (Inr None, \<lparr>w_heap = \<lparr>storage = [(0, [None])], count = 1\<rparr>, w_out = []\<rparr>)"
    by (simp add: ex_leak_def run_defs arg_defs)
  have b: "evalFuncInEnv 4 (hd (p_functions ex_freed)) (p_functions ex_freed) Map.empty initial_world
      = Some (Inr None, \<lparr>w_heap = \<lparr>storage = [], count = 1\<rparr>, w_out = []\<rparr>)"
    by (simp add: ex_freed_def run_defs arg_defs)
  have fa: "findFunc ''main'' (p_functions ex_leak) = Inr (Some (hd (p_functions ex_leak)))"
    and fb: "findFunc ''main'' (p_functions ex_freed) = Inr (Some (hd (p_functions ex_freed)))"
    by (simp_all add: findFunc_def ex_leak_def ex_freed_def)
  have pa: "parseMainArguments (f_args (hd (p_functions ex_leak))) [] = Inr Map.empty"
    and pb: "parseMainArguments (f_args (hd (p_functions ex_freed))) [] = Inr Map.empty"
    by (simp_all add: parseMainArguments_def ex_leak_def ex_freed_def)
  show ?thesis
    using leak_is_thrown_string [OF fa pa a] leak_is_thrown_string [OF fb pb b]
    by (simp add: heap_isEmpty_def)
qed

section \<open>The arguments of the entry function\<close>

text \<open>
  Against claim C8 as stated: the string of an integer parameter goes through a host
  number. The decimal numeral of \<open>2 ^ 53 + 1\<close> is bound as \<open>2 ^ 53\<close>, and \<^verbatim>\<open>0x10\<close> is
  bound as 16.
\<close>

theorem main_int_argument_rounded:
  "parseMainArguments [\<lparr>arg_name = ''a'', arg_type = TInt\<rparr>] [''9007199254740993'']
     = Inr (Map.empty(''a'' \<mapsto> VInt 9007199254740992)) \<and>
   parseMainArguments [\<lparr>arg_name = ''a'', arg_type = TInt\<rparr>] [''0x10'']
     = Inr (Map.empty(''a'' \<mapsto> VInt 16))"
proof -
  have b: "bit_length 9007199254740993 = 54"
    by (simp add: bit_length.simps)
  have d: "\<And>c. c \<in> set ''9007199254740993'' \<Longrightarrow> digit_of c < 10" 
    by (auto simp: digit_of_def)
  have p1: "parseInt ''9007199254740993'' = Num 9007199254740992"
    by (simp add: parseInt_def isWhiteSpace_def digit_of_def toNumber_def round53_def b Let_def)
  have p2: "parseInt ''0x10'' = Num 16"
    by (simp add: parseInt_def isWhiteSpace_def digit_of_def toNumber_def round53_def Let_def)
  show ?thesis
    by (simp add: parseMainArguments_def p1 p2)
qed

lemma digit_cases:
  assumes "d < (10::nat)"
  shows "d = 0 \<or> d = 1 \<or> d = 2 \<or> d = 3 \<or> d = 4 \<or> d = 5 \<or> d = 6 \<or> d = 7 \<or> d = 8 \<or> d = 9"
  using assms by arith

lemma digit_char:
  assumes "d < 10"
  shows "digit_of (''0123456789'' ! d) = d"
    and "\<not> isWhiteSpace (''0123456789'' ! d)"
    and "''0123456789'' ! d \<noteq> CHR ''-''" and "''0123456789'' ! d \<noteq> CHR ''+''"
  using digit_cases [OF assms]
  by (auto simp: digit_of_def isWhiteSpace_def)

lemma string_of_nat_digits:
  "string_of_nat n \<noteq> [] \<and> (\<forall>c \<in> set (string_of_nat n). digit_of c < 10) \<and>
   \<not> isWhiteSpace (hd (string_of_nat n)) \<and> hd (string_of_nat n) \<noteq> CHR ''-'' \<and>
   hd (string_of_nat n) \<noteq> CHR ''+'' \<and>
   foldl (\<lambda>a c. a * 10 + digit_of c) 0 (string_of_nat n) = n"
proof (induction n rule: string_of_nat.induct)
  case (1 n)
  show ?case
  proof (cases "n < 10")
    case True
    then show ?thesis
      using digit_char [of n] by (subst (1 2 3 4 5 6) string_of_nat.simps) simp
  next
    case False
    have m: "n mod 10 < 10" by simp
    from 1 [OF False] show ?thesis
      using False digit_char [OF m]
      by (subst (1 2 3 4 5 6) string_of_nat.simps) (simp add: hd_append)
  qed
qed


lemma parseInt_digits:
  assumes "s \<noteq> []" and "\<forall>c \<in> set s. digit_of c < 10" and "\<not> isWhiteSpace (hd s)"
    and "hd s \<noteq> CHR ''-''" and "hd s \<noteq> CHR ''+''"
  shows "parseInt s = toNumber (int (foldl (\<lambda>a c. a * 10 + digit_of c) 0 s))"
proof -
  from assms(1) obtain c cs where s: "s = c # cs" by (cases s) auto
  have w: "dropWhile isWhiteSpace s = s" using assms(3) s by simp
  have x: "CHR ''x'' \<notin> set s" "CHR ''X'' \<notin> set s"
    using assms(2) by (auto simp: digit_of_def)
  have h: "take 2 s \<noteq> ''0x''" "take 2 s \<noteq> ''0X''"
  proof -
    have "CHR ''x'' \<in> set s" if "take 2 s = ''0x''"
      using set_take_subset [of 2 s] that by auto
    with x show "take 2 s \<noteq> ''0x''" by blast
    have "CHR ''X'' \<in> set s" if "take 2 s = ''0X''"
      using set_take_subset [of 2 s] that by auto
    with x show "take 2 s \<noteq> ''0X''" by blast
  qed
  have t: "takeWhile (\<lambda>c. digit_of c < 10) s = s"
    using assms(2) by (simp add: takeWhile_eq_all_conv)
  show ?thesis
    unfolding parseInt_def w Let_def using assms(1,4,5) h by (simp add: t)
qed

lemma parseInt_minus_digits:
  assumes "s \<noteq> []" and "\<forall>c \<in> set s. digit_of c < 10"
  shows "parseInt (CHR ''-'' # s) = toNumber (- int (foldl (\<lambda>a c. a * 10 + digit_of c) 0 s))"
proof -
  have w: "dropWhile isWhiteSpace (CHR ''-'' # s) = CHR ''-'' # s"
    by (simp add: isWhiteSpace_def)
  have x: "CHR ''x'' \<notin> set s" "CHR ''X'' \<notin> set s"
    using assms(2) by (auto simp: digit_of_def)
  have h: "take 2 s \<noteq> ''0x''" "take 2 s \<noteq> ''0X''"
  proof -
    have "CHR ''x'' \<in> set s" if "take 2 s = ''0x''"
      using set_take_subset [of 2 s] that by auto
    with x show "take 2 s \<noteq> ''0x''" by blast
    have "CHR ''X'' \<in> set s" if "take 2 s = ''0X''"
      using set_take_subset [of 2 s] that by auto
    with x show "take 2 s \<noteq> ''0X''" by blast
  qed
  have t: "takeWhile (\<lambda>c. digit_of c < 10) s = s"
    using assms(2) by (simp add: takeWhile_eq_all_conv)
  show ?thesis
    unfolding parseInt_def w Let_def using assms(1) h by (simp add: t)
qed

lemma parseInt_string_of_int:
  assumes "\<bar>k\<bar> < 2 ^ 53"
  shows "parseInt (string_of_int k) = Num k"
proof (cases "k < 0")
  case True
  from string_of_nat_digits [of "nat (- k)"]
  have "parseInt (CHR ''-'' # string_of_nat (nat (- k))) = toNumber (- int (nat (- k)))"
    by (simp add: parseInt_minus_digits)
  with True show ?thesis using assms by (simp add: string_of_int_def toNumber_small)
next
  case False
  from string_of_nat_digits [of "nat k"]
  have "parseInt (string_of_nat (nat k)) = toNumber (int (nat k))"
    by (simp add: parseInt_digits)
  with False show ?thesis using assms by (simp add: string_of_int_def toNumber_small)
qed

lemma bind_main_args_other:
  "bind_main_args ps ss e = Inr env \<Longrightarrow> x \<notin> arg_name ` set ps \<Longrightarrow> env x = e x"
proof (induction ps arbitrary: ss e)
  case Nil
  then show ?case by simp
next
  case (Cons p ps)
  show ?case
  proof (cases ss)
    case Nil
    with Cons.prems show ?thesis by simp
  next
    case (Cons s ss')
    from Cons.prems(2) have x: "x \<noteq> arg_name p" "x \<notin> arg_name ` set ps" by auto
    from Cons.prems(1) Cons obtain e' where e': "bind_main_args ps ss' e' = Inr env"
      and eq: "e' x = e x"
      using x(1) by (cases "arg_type p") (auto split: sum.splits)
    from Cons.IH [OF e' x(2)] eq show ?thesis by simp
  qed
qed

lemma bind_main_args_nth:
  "length ps = length ss \<Longrightarrow> bind_main_args ps ss e = Inr env \<Longrightarrow>
   distinct (map arg_name ps) \<Longrightarrow> i < length ps \<Longrightarrow>
   (arg_type (ps ! i) = TBool \<longrightarrow>
      (ss ! i = ''true'' \<or> ss ! i = ''false'') \<and>
      env (arg_name (ps ! i)) = Some (VBool (ss ! i = ''true''))) \<and>
   (arg_type (ps ! i) = TInt \<longrightarrow>
      (\<exists>k. parseInt (ss ! i) = Num k \<and> env (arg_name (ps ! i)) = Some (VInt k)))"
proof (induction ps ss arbitrary: e i rule: list_induct2)
  case Nil
  then show ?case by simp
next
  case (Cons p ps s ss)
  from Cons.prems(2) have nin: "arg_name p \<notin> arg_name ` set ps" and d: "distinct (map arg_name ps)"
    by auto
  show ?case
  proof (cases i)
    case 0
    show ?thesis
    proof (cases "arg_type p")
      case TInt
      with Cons.prems(1) obtain k where k: "parseInt s = Num k"
        "bind_main_args ps ss (e(arg_name p \<mapsto> VInt k)) = Inr env"
        by (cases "parseInt s") (auto split: sum.splits)
      from bind_main_args_other [OF k(2) nin] k(1) TInt 0 show ?thesis by simp
    next
      case TBool
      with Cons.prems(1) obtain b where b: "parseBool s = Inr b"
        "bind_main_args ps ss (e(arg_name p \<mapsto> VBool b)) = Inr env"
        by (auto split: sum.splits)
      from b(1) have "(s = ''true'' \<or> s = ''false'') \<and> b = (s = ''true'')"
        by (auto simp: parseBool_def split: if_splits)
      with bind_main_args_other [OF b(2) nin] TBool 0 show ?thesis by simp
    next
      case TPtr
      with 0 show ?thesis by simp
    qed
  next
    case (Suc j)
    from Cons.prems(1) obtain e' where e': "bind_main_args ps ss e' = Inr env"
      by (cases "arg_type p") (auto split: sum.splits)
    from Cons.IH [OF e' d, of j] Cons.prems(3) Suc show ?thesis by simp
  qed
qed

lemma bind_main_args_bad_bool:
  "length ps = length ss \<Longrightarrow> i < length ps \<Longrightarrow> arg_type (ps ! i) = TBool \<Longrightarrow>
   ss ! i \<noteq> ''true'' \<Longrightarrow> ss ! i \<noteq> ''false'' \<Longrightarrow>
   \<forall>j < i. (arg_type (ps ! j) = TInt \<longrightarrow> (\<exists>k. parseInt (ss ! j) = Num k)) \<and>
           (arg_type (ps ! j) = TBool \<longrightarrow> ss ! j = ''true'' \<or> ss ! j = ''false'') \<Longrightarrow>
   bind_main_args ps ss e = Inl (BriliError (Boolean_argument_to_main (ss ! i)))"
proof (induction ps ss arbitrary: e i rule: list_induct2)
  case Nil
  then show ?case by simp
next
  case (Cons p ps s ss)
  show ?case
  proof (cases i)
    case 0
    with Cons.prems show ?thesis by (simp add: parseBool_def)
  next
    case (Suc j)
    from Cons.prems(5) have early: "\<forall>m < j. (arg_type (ps ! m) = TInt \<longrightarrow> (\<exists>k. parseInt (ss ! m) = Num k)) \<and>
           (arg_type (ps ! m) = TBool \<longrightarrow> ss ! m = ''true'' \<or> ss ! m = ''false'')"
      unfolding Suc by (metis Suc_less_eq nth_Cons_Suc)
    from Cons.prems Suc have rest: "bind_main_args ps ss e' = Inl (BriliError (Boolean_argument_to_main (ss ! j)))" for e'
      using Cons.IH [of j e'] early by simp
    from Cons.prems(5) Suc have head: "(arg_type p = TInt \<longrightarrow> (\<exists>k. parseInt s = Num k)) \<and>
           (arg_type p = TBool \<longrightarrow> s = ''true'' \<or> s = ''false'')"
      by (metis nth_Cons_0 zero_less_Suc)
    show ?thesis
    proof (cases "arg_type p")
      case TInt
      with head obtain k where "parseInt s = Num k" by blast
      with TInt rest Suc show ?thesis by simp
    next
      case TBool
      with head have "s = ''true'' \<or> s = ''false''" by blast
      with TBool rest Suc show ?thesis by (auto simp: parseBool_def)
    next
      case TPtr
      with rest Suc show ?thesis by simp
    qed
  qed
qed

text \<open>
  Claim C8, amended. A list of strings whose length is not the number of parameters is
  refused with a \<^verbatim>\<open>BriliError\<close>, and the driver then fails in the initial state, before
  any instruction. When the binding succeeds and the names of the parameters are
  distinct, a boolean parameter has the string \<^verbatim>\<open>true\<close> or \<^verbatim>\<open>false\<close> and is bound to
  that boolean, and an integer parameter is bound to the integer that \<^verbatim>\<open>parseInt\<close> gives
  for its string. A boolean parameter with any other string, after parameters that
  parse, makes the binding fail with the \<^verbatim>\<open>BriliError\<close>
  \<^verbatim>\<open>boolean argument to main must be 'true'/'false'\<close>, which \<^verbatim>\<open>main\<close> reports. The decimal
  numeral of an integer of magnitude below \<open>2 ^ 53\<close> is parsed to that integer.
\<close>

theorem main_arguments_bound:
  "(length argv \<noteq> length expected \<longrightarrow>
      parseMainArguments expected argv
        = Inl (BriliError (Mismatched_main_arity (length expected) (length argv)))) \<and>
   (findFunc ''main'' (p_functions prog) = Inr (Some m) \<and> length argv \<noteq> length (f_args m) \<longrightarrow>
      evalProg n prog argv
        = Some (Inl (BriliError (Mismatched_main_arity (length (f_args m)) (length argv))),
                initial_world)) \<and>
   (parseMainArguments expected argv = Inr env \<and> distinct (map arg_name expected) \<and>
    i < length expected \<longrightarrow>
      (arg_type (expected ! i) = TBool \<longrightarrow>
         (argv ! i = ''true'' \<or> argv ! i = ''false'') \<and>
         env (arg_name (expected ! i)) = Some (VBool (argv ! i = ''true''))) \<and>
      (arg_type (expected ! i) = TInt \<longrightarrow>
         (\<exists>k. parseInt (argv ! i) = Num k \<and> env (arg_name (expected ! i)) = Some (VInt k)))) \<and>
   (length argv = length expected \<and> i < length expected \<and> arg_type (expected ! i) = TBool \<and>
    argv ! i \<noteq> ''true'' \<and> argv ! i \<noteq> ''false'' \<and>
    (\<forall>j < i. (arg_type (expected ! j) = TInt \<longrightarrow> (\<exists>k. parseInt (argv ! j) = Num k)) \<and>
             (arg_type (expected ! j) = TBool \<longrightarrow> argv ! j = ''true'' \<or> argv ! j = ''false'')) \<longrightarrow>
      parseMainArguments expected argv = Inl (BriliError (Boolean_argument_to_main (argv ! i))) \<and>
      reportable (BriliError (Boolean_argument_to_main (argv ! i)))) \<and>
   (\<bar>k\<bar> < 2 ^ 53 \<longrightarrow> parseInt (string_of_int k) = Num k)"
proof (intro conjI impI)
  assume "length argv \<noteq> length expected"
  then show "parseMainArguments expected argv
        = Inl (BriliError (Mismatched_main_arity (length expected) (length argv)))"
    by (simp add: parseMainArguments_def)
next
  assume "findFunc ''main'' (p_functions prog) = Inr (Some m) \<and> length argv \<noteq> length (f_args m)"
  then show "evalProg n prog argv
        = Some (Inl (BriliError (Mismatched_main_arity (length (f_args m)) (length argv))),
                initial_world)"
    by (simp add: evalProg_def parseMainArguments_def)
next
  assume h: "parseMainArguments expected argv = Inr env \<and> distinct (map arg_name expected) \<and>
    i < length expected"
  then have l: "length expected = length argv"
    and b: "bind_main_args expected argv Map.empty = Inr env"
    by (auto simp: parseMainArguments_def split: if_splits)
  from bind_main_args_nth [OF l b] h
  have both: "(arg_type (expected ! i) = TBool \<longrightarrow>
         (argv ! i = ''true'' \<or> argv ! i = ''false'') \<and>
         env (arg_name (expected ! i)) = Some (VBool (argv ! i = ''true''))) \<and>
      (arg_type (expected ! i) = TInt \<longrightarrow>
         (\<exists>k. parseInt (argv ! i) = Num k \<and> env (arg_name (expected ! i)) = Some (VInt k)))"
    by blast
  { assume "arg_type (expected ! i) = TBool"
    with both show "argv ! i = ''true'' \<or> argv ! i = ''false''"
      and "env (arg_name (expected ! i)) = Some (VBool (argv ! i = ''true''))" by blast+ }
  { assume "arg_type (expected ! i) = TInt"
    with both show "\<exists>k. parseInt (argv ! i) = Num k \<and> env (arg_name (expected ! i)) = Some (VInt k)"
      by blast }
next
  assume h: "length argv = length expected \<and> i < length expected \<and> arg_type (expected ! i) = TBool \<and>
    argv ! i \<noteq> ''true'' \<and> argv ! i \<noteq> ''false'' \<and>
    (\<forall>j < i. (arg_type (expected ! j) = TInt \<longrightarrow> (\<exists>k. parseInt (argv ! j) = Num k)) \<and>
             (arg_type (expected ! j) = TBool \<longrightarrow> argv ! j = ''true'' \<or> argv ! j = ''false''))"
  then have "bind_main_args expected argv Map.empty
      = Inl (BriliError (Boolean_argument_to_main (argv ! i)))"
    using bind_main_args_bad_bool [of expected argv i Map.empty] by simp
  with h show "parseMainArguments expected argv
      = Inl (BriliError (Boolean_argument_to_main (argv ! i)))"
    by (simp add: parseMainArguments_def)
next
  assume "\<bar>k\<bar> < 2 ^ 53"
  then show "parseInt (string_of_int k) = Num k" by (rule parseInt_string_of_int)
qed simp

theorem main_arguments_bound_witness:
  "parseMainArguments [\<lparr>arg_name = ''a'', arg_type = TInt\<rparr>] []
     = Inl (BriliError (Mismatched_main_arity 1 0)) \<and>
   evalProg 5 \<lparr>p_functions = [ex_callee\<lparr>f_name := ''main''\<rparr>]\<rparr> []
     = Some (Inl (BriliError (Mismatched_main_arity 1 0)), initial_world) \<and>
   parseMainArguments [\<lparr>arg_name = ''a'', arg_type = TInt\<rparr>, \<lparr>arg_name = ''b'', arg_type = TBool\<rparr>]
       [''-42'', ''true'']
     = Inr (Map.empty(''a'' \<mapsto> VInt (- 42), ''b'' \<mapsto> VBool True)) \<and>
   parseMainArguments [\<lparr>arg_name = ''a'', arg_type = TInt\<rparr>, \<lparr>arg_name = ''b'', arg_type = TBool\<rparr>]
       [''-42'', ''yes'']
     = Inl (BriliError (Boolean_argument_to_main ''yes'')) \<and>
   parseInt (string_of_int (- 42)) = Num (- 42)"
proof -
  have p: "parseInt ''-42'' = Num (- 42)"
    by (simp add: parseInt_def isWhiteSpace_def digit_of_def toNumber_small Let_def)
  have ok: "parseMainArguments [\<lparr>arg_name = ''a'', arg_type = TInt\<rparr>, \<lparr>arg_name = ''b'', arg_type = TBool\<rparr>]
       [''-42'', ''true'']
     = Inr (Map.empty(''a'' \<mapsto> VInt (- 42), ''b'' \<mapsto> VBool True))"
    by (simp add: parseMainArguments_def p parseBool_def)
  show ?thesis
    using main_arguments_bound [where expected = "[\<lparr>arg_name = ''a'', arg_type = TInt\<rparr>]"
        and argv = "[]" and prog = "\<lparr>p_functions = [ex_callee\<lparr>f_name := ''main''\<rparr>]\<rparr>"
        and m = "ex_callee\<lparr>f_name := ''main''\<rparr>" and n = 5 and k = "- 42"]
      main_arguments_bound [where
        expected = "[\<lparr>arg_name = ''a'', arg_type = TInt\<rparr>, \<lparr>arg_name = ''b'', arg_type = TBool\<rparr>]"
        and argv = "[''-42'', ''true'']" and i = 1
        and env = "Map.empty(''a'' \<mapsto> VInt (- 42), ''b'' \<mapsto> VBool True)"]
      main_arguments_bound [where
        expected = "[\<lparr>arg_name = ''a'', arg_type = TInt\<rparr>, \<lparr>arg_name = ''b'', arg_type = TBool\<rparr>]"
        and argv = "[''-42'', ''yes'']" and i = 1]
    by (simp add: findFunc_def ok p ex_callee_def)
qed

end
